theory Spec2Isabelle
  imports Complex_Main "HOL-Library.Monad_Syntax"
begin

section \<open>Numbers and vectors\<close>

text \<open>
  The C++ code computes with \<^verbatim>\<open>float\<close>. Throughout this development a float is
  idealised as a real number: rounding is not modelled. Where IEEE arithmetic yields an
  infinity or a NaN that decides a branch (a division by zero), the branch is written out.
  \<^verbatim>\<open>qint64\<close> time stamps (nanoseconds) are unbounded integers.
\<close>

datatype Vector = Vector (vec_x: real) (vec_y: real)

definition vadd :: "Vector \<Rightarrow> Vector \<Rightarrow> Vector" where
  "vadd a b = Vector (vec_x a + vec_x b) (vec_y a + vec_y b)"

definition vsub :: "Vector \<Rightarrow> Vector \<Rightarrow> Vector" where
  "vsub a b = Vector (vec_x a - vec_x b) (vec_y a - vec_y b)"

definition vscale :: "Vector \<Rightarrow> real \<Rightarrow> Vector" where
  "vscale a k = Vector (vec_x a * k) (vec_y a * k)"

definition vneg :: "Vector \<Rightarrow> Vector" where
  "vneg a = Vector (- vec_x a) (- vec_y a)"

definition vdot :: "Vector \<Rightarrow> Vector \<Rightarrow> real" where
  "vdot a b = vec_x a * vec_x b + vec_y a * vec_y b"

definition lengthSquared :: "Vector \<Rightarrow> real" where
  "lengthSquared a = vec_x a * vec_x a + vec_y a * vec_y a"

definition vlength :: "Vector \<Rightarrow> real" where
  "vlength a = sqrt (lengthSquared a)"

definition distanceSq :: "Vector \<Rightarrow> Vector \<Rightarrow> real" where
  "distanceSq a b = lengthSquared (vsub b a)"

definition vdistance :: "Vector \<Rightarrow> Vector \<Rightarrow> real" where
  "vdistance a b = sqrt (distanceSq a b)"

definition vabs :: "Vector \<Rightarrow> Vector" where
  "vabs a = Vector \<bar>vec_x a\<bar> \<bar>vec_y a\<bar>"

definition perpendicular :: "Vector \<Rightarrow> Vector" where
  "perpendicular dir = Vector (vec_y dir) (- vec_x dir)"

text \<open>\<^verbatim>\<open>sign\<close> of alphatimetrajectory.cpp and speedprofile.cpp: zero counts as positive.\<close>

definition sign :: "real \<Rightarrow> real" where
  "sign x = (if x < 0 then - 1 else 1)"

text \<open>\<^verbatim>\<open>std::numeric_limits<float>::max()\<close>.\<close>

definition FLT_MAX :: real where
  "FLT_MAX = 340282346638528859811704183484516925440"

section \<open>Coordinate conversion (core/coordinates.h)\<close>

text \<open>
  \<^verbatim>\<open>fromVision\<close> and \<^verbatim>\<open>toVision\<close> are templates over any type with an x/y
  getter and setter; the model reads and writes a \<^typ>\<open>Vector\<close>.
\<close>

definition fromVision :: "Vector \<Rightarrow> Vector" where
  "fromVision from =
     (let detectionX = vec_x from; detectionY = vec_y from;
          x = - detectionY / 1000;
          y = detectionX / 1000
      in Vector x y)"

definition toVision :: "Vector \<Rightarrow> Vector" where
  "toVision from =
     (let x = vec_x from; y = vec_y from;
          visionX = y * 1000;
          visionY = - x * 1000
      in Vector visionX visionY)"

section \<open>Tracker (tracker.cpp)\<close>

subsection \<open>Messages and state\<close>

text \<open>
  The protobuf messages are outside the repository's sources; a decoded packet is modelled
  by the fields tracker.cpp reads. A packet that fails to parse is \<open>None\<close>.
\<close>

record DetectionBall =
  ball_x :: real
  ball_y :: real

record DetectionRobot =
  robot_id :: "nat option"
  robot_x :: real
  robot_y :: real
  robot_orientation :: real

record DetectionFrame =
  t_capture :: real
  t_sent :: real
  camera_id :: nat
  balls :: "DetectionBall list"
  robots_yellow :: "DetectionRobot list"
  robots_blue :: "DetectionRobot list"

record CameraCalibration =
  calib_camera_id :: nat
  derived_camera_world_tx :: "real option"
  derived_camera_world_ty :: "real option"
  derived_camera_world_tz :: "real option"
  focal_length :: real

record GeometryFieldSize =
  g_line_width :: real
  g_field_width :: real
  g_field_length :: real
  g_boundary_width :: real
  g_referee_width :: real
  g_goal_width :: real
  g_goal_depth :: real
  g_goal_wall_width :: real
  g_center_circle_radius :: real
  g_defense_radius :: real
  g_defense_stretch :: real
  g_free_kick_from_defense_dist :: real
  g_penalty_spot_from_field_line_dist :: real
  g_penalty_line_from_spot_dist :: real

record WorldGeometry =
  line_width :: real
  field_width :: real
  field_height :: real
  boundary_width :: real
  referee_width :: real
  goal_width :: real
  goal_depth :: real
  goal_wall_width :: real
  center_circle_radius :: real
  defense_radius :: real
  defense_stretch :: real
  free_kick_from_defense_dist :: real
  penalty_spot_from_field_line_dist :: real
  penalty_line_from_spot_dist :: real
  goal_height :: real

record GeometryData =
  geometry_field :: GeometryFieldSize
  geometry_calib :: "CameraCalibration list"

record WrapperPacket =
  wrapper_geometry :: "GeometryData option"
  wrapper_detection :: "DetectionFrame option"

type_synonym Packet = "WrapperPacket option \<times> int"

record CameraInfo =
  cameraPosition :: "nat \<rightharpoonup> real \<times> real \<times> real"
  focalLength :: "nat \<rightharpoonup> real"

text \<open>The \<^verbatim>\<open>RobotInfo\<close> aggregate as tracker.cpp builds it (four members).\<close>

record TrackedRobotInfo =
  tr_robotPos :: Vector
  tr_dribblerPos :: Vector
  tr_kickIsChip :: bool
  tr_kickIsLinear :: bool

text \<open>
  The classes \<^verbatim>\<open>RobotFilter\<close> and \<^verbatim>\<open>BallTracker\<close> are not among the sources. Their
  states are the type parameters \<open>'r\<close> and \<open>'b\<close>, and the member functions that tracker.cpp
  calls are the fields of this record; every result below holds for all of them. A member
  function that changes the filter returns the new state. \<open>allocate\<close> stands for
  \<^verbatim>\<open>new\<close>: it gives the address of a new ball tracker from the addresses in use.
\<close>

record ('b, 'r) FilterOps =
  bt_lastUpdate :: "'b \<Rightarrow> int"
  bt_frameCounter :: "'b \<Rightarrow> int"
  bt_initTime :: "'b \<Rightarrow> int"
  bt_primaryCamera :: "'b \<Rightarrow> nat"
  bt_isFlying :: "'b \<Rightarrow> bool"
  bt_distToCamera :: "bool \<Rightarrow> 'b \<Rightarrow> real"
  bt_update :: "int \<Rightarrow> 'b \<Rightarrow> 'b"
  bt_acceptDetection :: "DetectionBall \<Rightarrow> int \<Rightarrow> nat \<Rightarrow> TrackedRobotInfo \<Rightarrow> 'b \<Rightarrow> bool"
  bt_addVisionFrame :: "DetectionBall \<Rightarrow> int \<Rightarrow> nat \<Rightarrow> TrackedRobotInfo \<Rightarrow> 'b \<Rightarrow> 'b"
  bt_copy :: "'b \<Rightarrow> nat \<Rightarrow> 'b"
  bt_new :: "DetectionBall \<Rightarrow> int \<Rightarrow> nat \<Rightarrow> CameraInfo \<Rightarrow> TrackedRobotInfo \<Rightarrow> 'b"
  allocate :: "nat list \<Rightarrow> nat"
  rf_lastUpdate :: "'r \<Rightarrow> int"
  rf_frameCounter :: "'r \<Rightarrow> int"
  rf_update :: "int \<Rightarrow> 'r \<Rightarrow> 'r"
  rf_distanceTo :: "DetectionRobot \<Rightarrow> 'r \<Rightarrow> real"
  rf_new :: "DetectionRobot \<Rightarrow> int \<Rightarrow> 'r"
  rf_addVisionFrame :: "nat \<Rightarrow> DetectionRobot \<Rightarrow> int \<Rightarrow> 'r \<Rightarrow> 'r"
  rf_robotPos :: "'r \<Rightarrow> Vector"
  rf_dribblerPos :: "'r \<Rightarrow> Vector"
  rf_kickIsChip :: "'r \<Rightarrow> bool"
  rf_kickIsLinear :: "'r \<Rightarrow> bool"

text \<open>
  A \<^verbatim>\<open>RobotMap\<close> is a \<^verbatim>\<open>QMap\<close> from robot id to the list of its filters, kept in
  ascending order of the id. \<^verbatim>\<open>operator[]\<close> on a missing id inserts an empty list.
\<close>

type_synonym 'r RobotMap = "(nat \<times> 'r list) list"

fun qmap_lookup :: "nat \<Rightarrow> 'r RobotMap \<Rightarrow> 'r list" where
  "qmap_lookup k [] = []"
| "qmap_lookup k ((k', v) # m) = (if k = k' then v else qmap_lookup k m)"

fun qmap_set :: "nat \<Rightarrow> 'r list \<Rightarrow> 'r RobotMap \<Rightarrow> 'r RobotMap" where
  "qmap_set k v [] = [(k, v)]"
| "qmap_set k v ((k', v') # m) =
     (if k = k' then (k, v) # m
      else if k < k' then (k, v) # (k', v') # m
      else (k', v') # qmap_set k v m)"

text \<open>
  The ball filters are held by pointer, and \<^verbatim>\<open>m_currentBallFilter\<close> is compared with
  them by address: each entry of \<open>m_ballFilter\<close> is an address with the state behind it.
  Robot filters are never compared by address across calls, so their lists hold states.
\<close>

record ('b, 'r) Tracker =
  m_cameraInfo :: CameraInfo
  m_flip :: bool
  m_systemDelay :: int
  m_resetTime :: int
  m_geometry :: WorldGeometry
  m_geometryUpdated :: bool
  m_hasVisionData :: bool
  m_lastUpdateTime :: int
  m_visionPackets :: "Packet list"
  m_robotFilterYellow :: "'r RobotMap"
  m_robotFilterBlue :: "'r RobotMap"
  m_ballFilter :: "(nat \<times> 'b) list"
  m_currentBallFilter :: "nat option"
  m_aoiEnabled :: bool
  m_aoi_x1 :: real
  m_aoi_y1 :: real
  m_aoi_x2 :: real
  m_aoi_y2 :: real

datatype Team = Yellow | Blue

definition robotFilters :: "Team \<Rightarrow> ('b, 'r) Tracker \<Rightarrow> 'r RobotMap" where
  "robotFilters team t = (case team of Yellow \<Rightarrow> m_robotFilterYellow t | Blue \<Rightarrow> m_robotFilterBlue t)"

definition setRobotFilters :: "Team \<Rightarrow> 'r RobotMap \<Rightarrow> ('b, 'r) Tracker \<Rightarrow> ('b, 'r) Tracker" where
  "setRobotFilters team m t =
     (case team of Yellow \<Rightarrow> t\<lparr>m_robotFilterYellow := m\<rparr> | Blue \<Rightarrow> t\<lparr>m_robotFilterBlue := m\<rparr>)"

definition isInAOI :: "real \<Rightarrow> real \<Rightarrow> bool \<Rightarrow> real \<Rightarrow> real \<Rightarrow> real \<Rightarrow> real \<Rightarrow> bool" where
  "isInAOI detectionX detectionY flip x1 y1 x2 y2 =
     (let x0 = - detectionY / 1000;
          y0 = detectionX / 1000;
          x = (if flip then - x0 else x0);
          y = (if flip then - y0 else y0)
      in x > x1 \<and> x < x2 \<and> y > y1 \<and> y < y2)"

subsection \<open>Removing outdated filters\<close>

definition minFrameCount :: int where
  "minFrameCount = 5"

text \<open>
  \<^verbatim>\<open>Tracker::invalidate\<close> is a template over the filter class; \<open>lastUpdate\<close> and
  \<open>frameCounter\<close> are the two member functions it calls. The loop walks a
  \<^verbatim>\<open>QMutableListIterator\<close>: \<open>kept\<close> holds the filters already passed and not removed,
  the second list the filters still ahead, its head being the one returned by
  \<^verbatim>\<open>it.next()\<close>. \<^verbatim>\<open>filters.size()\<close> is read anew for every filter, so it counts
  the survivors so far, the current filter and those still ahead.
\<close>

fun invalidate_loop ::
  "('f \<Rightarrow> int) \<Rightarrow> ('f \<Rightarrow> int) \<Rightarrow> 'f list \<Rightarrow> 'f list \<Rightarrow> int \<Rightarrow> int \<Rightarrow> int \<Rightarrow> 'f list"
where
  "invalidate_loop lastUpdate frameCounter kept [] maxTime maxTimeLast currentTime = kept"
| "invalidate_loop lastUpdate frameCounter kept (f # rest) maxTime maxTimeLast currentTime =
     (let timeLimit =
            (if length kept + length (f # rest) > 1 \<or> frameCounter f < minFrameCount
             then maxTime else maxTimeLast)
      in if lastUpdate f + timeLimit < currentTime
         then invalidate_loop lastUpdate frameCounter kept rest maxTime maxTimeLast currentTime
         else invalidate_loop lastUpdate frameCounter (kept @ [f]) rest maxTime maxTimeLast currentTime)"

definition invalidate ::
  "('f \<Rightarrow> int) \<Rightarrow> ('f \<Rightarrow> int) \<Rightarrow> 'f list \<Rightarrow> int \<Rightarrow> int \<Rightarrow> int \<Rightarrow> 'f list"
where
  "invalidate lastUpdate frameCounter filters maxTime maxTimeLast currentTime =
     invalidate_loop lastUpdate frameCounter [] filters maxTime maxTimeLast currentTime"

definition invalidateBall ::
  "('b, 'r) FilterOps \<Rightarrow> int \<Rightarrow> ('b, 'r) Tracker \<Rightarrow> ('b, 'r) Tracker"
where
  "invalidateBall ops currentTime t =
     (let maxTime = 100000000;
          maxTimeLast = 1000000000
      in t\<lparr>m_ballFilter :=
             invalidate (\<lambda>f. bt_lastUpdate ops (snd f)) (\<lambda>f. bt_frameCounter ops (snd f))
               (m_ballFilter t) maxTime maxTimeLast currentTime\<rparr>)"

definition invalidateRobots :: "('b, 'r) FilterOps \<Rightarrow> 'r RobotMap \<Rightarrow> int \<Rightarrow> 'r RobotMap" where
  "invalidateRobots ops rmap currentTime =
     (let maxTime = 200000000;
          maxTimeLast = 1000000000
      in map (\<lambda>(rid, filters).
                (rid, invalidate (rf_lastUpdate ops) (rf_frameCounter ops) filters
                        maxTime maxTimeLast currentTime)) rmap)"

subsection \<open>Best filters\<close>

text \<open>
  \<^verbatim>\<open>bestFilter\<close>: the first filter with enough frames is moved to the front of its list
  and returned; \<open>None\<close> is \<^verbatim>\<open>NULL\<close>.
\<close>

definition bestFilter :: "('f \<Rightarrow> int) \<Rightarrow> 'f list \<Rightarrow> int \<Rightarrow> 'f list \<times> 'f option" where
  "bestFilter frameCounter filters minCount =
     (case dropWhile (\<lambda>item. \<not> frameCounter item \<ge> minCount) filters of
        [] \<Rightarrow> (filters, None)
      | item # after \<Rightarrow>
          (item # takeWhile (\<lambda>item. \<not> frameCounter item \<ge> minCount) filters @ after, Some item))"

text \<open>\<^verbatim>\<open>bestBallFilter\<close>: the oldest filter, the first of them on a tie.\<close>

fun bestBallFilter_loop ::
  "('b, 'r) FilterOps \<Rightarrow> (nat \<times> 'b) option \<Rightarrow> int \<Rightarrow> (nat \<times> 'b) list \<Rightarrow> (nat \<times> 'b) option"
where
  "bestBallFilter_loop ops best oldestTime [] = best"
| "bestBallFilter_loop ops best oldestTime (f # fs) =
     (if best = None \<or> bt_initTime ops (snd f) < oldestTime
      then bestBallFilter_loop ops (Some f) (bt_initTime ops (snd f)) fs
      else bestBallFilter_loop ops best oldestTime fs)"

definition bestBallFilter ::
  "('b, 'r) FilterOps \<Rightarrow> ('b, 'r) Tracker \<Rightarrow> ('b, 'r) Tracker \<times> (nat \<times> 'b) option"
where
  "bestBallFilter ops t =
     (let best = bestBallFilter_loop ops None 0 (m_ballFilter t)
      in (t\<lparr>m_currentBallFilter := map_option fst best\<rparr>, best))"

fun getBestRobots_map ::
  "('b, 'r) FilterOps \<Rightarrow> int \<Rightarrow> int \<Rightarrow> 'r RobotMap \<Rightarrow> 'r RobotMap \<times> 'r list"
where
  "getBestRobots_map ops minCount currentTime [] = ([], [])"
| "getBestRobots_map ops minCount currentTime ((rid, filters) # rest) =
     (let (rest', found) = getBestRobots_map ops minCount currentTime rest
      in case bestFilter (rf_frameCounter ops) filters minCount of
           (filters', None) \<Rightarrow> ((rid, filters') # rest', found)
         | (filters', Some robot) \<Rightarrow>
             (let robot' = rf_update ops currentTime robot
              in ((rid, robot' # tl filters') # rest', robot' # found)))"

definition getBestRobots ::
  "('b, 'r) FilterOps \<Rightarrow> int \<Rightarrow> ('b, 'r) Tracker \<Rightarrow> ('b, 'r) Tracker \<times> 'r list"
where
  "getBestRobots ops currentTime t =
     (let resetTimeout = 100 * 1000 * 1000;
          minCount = (if currentTime > m_resetTime t + resetTimeout then 5 else 0);
          (yellow, filtersY) = getBestRobots_map ops minCount currentTime (m_robotFilterYellow t);
          (blue, filtersB) = getBestRobots_map ops minCount currentTime (m_robotFilterBlue t)
      in (t\<lparr>m_robotFilterYellow := yellow, m_robotFilterBlue := blue\<rparr>, filtersY @ filtersB))"

subsection \<open>Routing detections\<close>

fun nearestRobotInfo_loop ::
  "('b, 'r) FilterOps \<Rightarrow> Vector \<Rightarrow> TrackedRobotInfo \<Rightarrow> real \<Rightarrow> 'r option \<Rightarrow> 'r list
   \<Rightarrow> TrackedRobotInfo"
where
  "nearestRobotInfo_loop ops ball rInfo minDist best [] = rInfo"
| "nearestRobotInfo_loop ops ball rInfo minDist best (filt # rest) =
     (let dribbler = rf_dribblerPos ops filt;
          dist = vlength (vsub ball dribbler)
      in if dist < minDist \<or> best = None
         then nearestRobotInfo_loop ops ball
                \<lparr>tr_robotPos = rf_robotPos ops filt, tr_dribblerPos = rf_dribblerPos ops filt,
                 tr_kickIsChip = rf_kickIsChip ops filt, tr_kickIsLinear = rf_kickIsLinear ops filt\<rparr>
                dist (Some filt) rest
         else nearestRobotInfo_loop ops ball rInfo minDist best rest)"

definition nearestRobotInfo ::
  "('b, 'r) FilterOps \<Rightarrow> 'r list \<Rightarrow> DetectionBall \<Rightarrow> TrackedRobotInfo"
where
  "nearestRobotInfo ops robots b =
     (let ball = Vector (- ball_y b / 1000) (ball_x b / 1000);
          rInfo = \<lparr>tr_robotPos = Vector 0 0, tr_dribblerPos = Vector 0 0,
                   tr_kickIsChip = False, tr_kickIsLinear = False\<rparr>;
          minDist = 10000
      in nearestRobotInfo_loop ops ball rInfo minDist None robots)"

text \<open>
  \<^verbatim>\<open>prioritizeBallFilters\<close> sorts with \<^verbatim>\<open>std::sort\<close>, which leaves the order of
  filters at equal distance open; the model sorts stably.
\<close>

definition prioritizeBallFilters ::
  "('b, 'r) FilterOps \<Rightarrow> ('b, 'r) Tracker \<Rightarrow> ('b, 'r) Tracker"
where
  "prioritizeBallFilters ops t =
     (let flying =
            (case m_currentBallFilter t of
               None \<Rightarrow> False
             | Some a \<Rightarrow>
                 (case filter (\<lambda>f. fst f = a) (m_ballFilter t) of
                    [] \<Rightarrow> False
                  | f # _ \<Rightarrow> bt_isFlying ops (snd f)))
      in t\<lparr>m_ballFilter := sort_key (\<lambda>f. bt_distToCamera ops flying (snd f)) (m_ballFilter t)\<rparr>)"

text \<open>
  The loop of \<^verbatim>\<open>trackBall\<close> over the ball filters. It returns the filters as the loop
  leaves them, \<^verbatim>\<open>acceptingFilterWithCamId\<close> and the filter behind
  \<^verbatim>\<open>acceptingFilterWithOtherCamId\<close> (\<open>None\<close> for \<^verbatim>\<open>nullptr\<close>).
\<close>

fun trackBall_loop ::
  "('b, 'r) FilterOps \<Rightarrow> DetectionBall \<Rightarrow> int \<Rightarrow> nat \<Rightarrow> TrackedRobotInfo
   \<Rightarrow> bool \<Rightarrow> 'b option \<Rightarrow> (nat \<times> 'b) list \<Rightarrow> (nat \<times> 'b) list \<times> bool \<times> 'b option"
where
  "trackBall_loop ops ball receiveTime cameraId robotInfo withCam other [] = ([], withCam, other)"
| "trackBall_loop ops ball receiveTime cameraId robotInfo withCam other ((a, f) # rest) =
     (let f1 = bt_update ops receiveTime f
      in if bt_acceptDetection ops ball receiveTime cameraId robotInfo f1
         then (if bt_primaryCamera ops f1 = cameraId
               then (let f2 = bt_addVisionFrame ops ball receiveTime cameraId robotInfo f1;
                         (rest', withCam', other') =
                            trackBall_loop ops ball receiveTime cameraId robotInfo True other rest
                     in ((a, f2) # rest', withCam', other'))
               else (let (rest', withCam', other') =
                            trackBall_loop ops ball receiveTime cameraId robotInfo withCam (Some f1) rest
                     in ((a, f1) # rest', withCam', other')))
         else (let (rest', withCam', other') =
                      trackBall_loop ops ball receiveTime cameraId robotInfo withCam other rest
               in ((a, f1) # rest', withCam', other')))"

definition trackBall ::
  "('b, 'r) FilterOps \<Rightarrow> DetectionBall \<Rightarrow> int \<Rightarrow> nat \<Rightarrow> 'r list
   \<Rightarrow> ('b, 'r) Tracker \<Rightarrow> ('b, 'r) Tracker"
where
  "trackBall ops ball receiveTime cameraId bestRobots t =
     (if m_aoiEnabled t \<and>
         \<not> isInAOI (ball_x ball) (ball_y ball) (m_flip t)
             (m_aoi_x1 t) (m_aoi_y1 t) (m_aoi_x2 t) (m_aoi_y2 t)
      then t
      else if cameraPosition (m_cameraInfo t) cameraId = None
      then t
      else
        (let robotInfo = nearestRobotInfo ops bestRobots ball;
             (filters, acceptingFilterWithCamId, acceptingFilterWithOtherCamId) =
                trackBall_loop ops ball receiveTime cameraId robotInfo False None (m_ballFilter t)
         in if \<not> acceptingFilterWithCamId
            then
              (let bt = (case acceptingFilterWithOtherCamId of
                           Some f \<Rightarrow> bt_copy ops f cameraId
                         | None \<Rightarrow> bt_new ops ball receiveTime cameraId (m_cameraInfo t) robotInfo);
                   a = allocate ops (map fst filters)
               in t\<lparr>m_ballFilter :=
                      filters @ [(a, bt_addVisionFrame ops ball receiveTime cameraId robotInfo bt)]\<rparr>)
            else prioritizeBallFilters ops (t\<lparr>m_ballFilter := filters\<rparr>)))"

text \<open>
  The association loop of \<^verbatim>\<open>trackRobot\<close>: every filter of the list is advanced to
  \<open>receiveTime\<close>; \<open>nearestFilter\<close> is the position of the nearest one under the gate.
\<close>

fun trackRobot_loop ::
  "('b, 'r) FilterOps \<Rightarrow> DetectionRobot \<Rightarrow> int \<Rightarrow> real \<Rightarrow> nat option \<Rightarrow> nat \<Rightarrow> 'r list
   \<Rightarrow> 'r list \<times> nat option"
where
  "trackRobot_loop ops robot receiveTime nearest nearestFilter i [] = ([], nearestFilter)"
| "trackRobot_loop ops robot receiveTime nearest nearestFilter i (filt # rest) =
     (let filt' = rf_update ops receiveTime filt;
          dist = rf_distanceTo ops robot filt';
          (rest', found) =
             (if dist < nearest
              then trackRobot_loop ops robot receiveTime dist (Some i) (Suc i) rest
              else trackRobot_loop ops robot receiveTime nearest nearestFilter (Suc i) rest)
      in (filt' # rest', found))"

definition trackRobot ::
  "('b, 'r) FilterOps \<Rightarrow> Team \<Rightarrow> DetectionRobot \<Rightarrow> int \<Rightarrow> nat
   \<Rightarrow> ('b, 'r) Tracker \<Rightarrow> ('b, 'r) Tracker"
where
  "trackRobot ops team robot receiveTime cameraId t =
     (case robot_id robot of
        None \<Rightarrow> t
      | Some rid \<Rightarrow>
          if m_aoiEnabled t \<and>
             \<not> isInAOI (robot_x robot) (robot_y robot) (m_flip t)
                 (m_aoi_x1 t) (m_aoi_y1 t) (m_aoi_x2 t) (m_aoi_y2 t)
          then t
          else
            (let nearest = 1 / 2;
                 robotMap = robotFilters team t;
                 (list, nearestFilter) =
                    trackRobot_loop ops robot receiveTime nearest None 0 (qmap_lookup rid robotMap);
                 list' =
                   (case nearestFilter of
                      None \<Rightarrow>
                        list @ [rf_addVisionFrame ops cameraId robot receiveTime
                                  (rf_new ops robot receiveTime)]
                    | Some i \<Rightarrow>
                        list[i := rf_addVisionFrame ops cameraId robot receiveTime (list ! i)])
             in setRobotFilters team (qmap_set rid list' robotMap) t))"

subsection \<open>Geometry, calibration and the tick\<close>

definition updateGeometry :: "GeometryFieldSize \<Rightarrow> ('b, 'r) Tracker \<Rightarrow> ('b, 'r) Tracker" where
  "updateGeometry g t =
     t\<lparr>m_geometry :=
         \<lparr>line_width = g_line_width g / 1000,
          field_width = g_field_width g / 1000,
          field_height = g_field_length g / 1000,
          boundary_width = g_boundary_width g / 1000,
          referee_width = g_referee_width g / 1000,
          goal_width = g_goal_width g / 1000,
          goal_depth = g_goal_depth g / 1000,
          goal_wall_width = g_goal_wall_width g / 1000,
          center_circle_radius = g_center_circle_radius g / 1000,
          defense_radius = g_defense_radius g / 1000,
          defense_stretch = g_defense_stretch g / 1000,
          free_kick_from_defense_dist = g_free_kick_from_defense_dist g / 1000,
          penalty_spot_from_field_line_dist = g_penalty_spot_from_field_line_dist g / 1000,
          penalty_line_from_spot_dist = g_penalty_line_from_spot_dist g / 1000,
          goal_height = 16 / 100\<rparr>\<rparr>"

definition updateCamera :: "CameraCalibration \<Rightarrow> ('b, 'r) Tracker \<Rightarrow> ('b, 'r) Tracker" where
  "updateCamera c t =
     (case (derived_camera_world_tx c, derived_camera_world_ty c, derived_camera_world_tz c) of
        (Some tx, Some ty, Some tz) \<Rightarrow>
          (let cameraPos = (- ty / 1000, tx / 1000, tz / 1000);
               info = m_cameraInfo t
           in t\<lparr>m_cameraInfo :=
                  info\<lparr>cameraPosition := (cameraPosition info)(calib_camera_id c \<mapsto> cameraPos),
                       focalLength := (focalLength info)(calib_camera_id c \<mapsto> focal_length c)\<rparr>\<rparr>)
      | _ \<Rightarrow> t)"

text \<open>The conversion of a \<^verbatim>\<open>double\<close> to \<^verbatim>\<open>qint64\<close> drops the fraction.\<close>

definition toInt64 :: "real \<Rightarrow> int" where
  "toInt64 r = (if r < 0 then \<lceil>r\<rceil> else \<lfloor>r\<rfloor>)"

definition processPacket ::
  "('b, 'r) FilterOps \<Rightarrow> ('b, 'r) Tracker \<Rightarrow> Packet \<Rightarrow> ('b, 'r) Tracker"
where
  "processPacket ops t p =
     (case fst p of
        None \<Rightarrow> t
      | Some wrapper \<Rightarrow>
          (let t1 = (case wrapper_geometry wrapper of
                       None \<Rightarrow> t
                     | Some g \<Rightarrow>
                         (foldl (\<lambda>s c. updateCamera c s) (updateGeometry (geometry_field g) t)
                            (geometry_calib g))\<lparr>m_geometryUpdated := True\<rparr>)
           in case wrapper_detection wrapper of
                None \<Rightarrow> t1
              | Some detection \<Rightarrow>
                  (let visionProcessingTime =
                         toInt64 ((t_sent detection - t_capture detection) * 1000000000);
                       sourceTime = snd p - visionProcessingTime - m_systemDelay t1
                   in if sourceTime \<le> m_lastUpdateTime t1
                      then t1
                      else
                        (let t2 = foldl (\<lambda>s r. trackRobot ops Yellow r sourceTime (camera_id detection) s)
                                    t1 (robots_yellow detection);
                             t3 = foldl (\<lambda>s r. trackRobot ops Blue r sourceTime (camera_id detection) s)
                                    t2 (robots_blue detection);
                             (t4, bestRobots) = getBestRobots ops sourceTime t3;
                             t5 = foldl (\<lambda>s b. trackBall ops b sourceTime (camera_id detection) bestRobots s)
                                    t4 (balls detection)
                         in t5\<lparr>m_lastUpdateTime := sourceTime\<rparr>))))"

definition process :: "('b, 'r) FilterOps \<Rightarrow> int \<Rightarrow> ('b, 'r) Tracker \<Rightarrow> ('b, 'r) Tracker" where
  "process ops currentTime t =
     (let t1 = (if m_resetTime t = 0 then t\<lparr>m_resetTime := currentTime\<rparr> else t);
          t2 = invalidateBall ops currentTime t1;
          t3 = t2\<lparr>m_robotFilterYellow := invalidateRobots ops (m_robotFilterYellow t2) currentTime\<rparr>;
          t4 = t3\<lparr>m_robotFilterBlue := invalidateRobots ops (m_robotFilterBlue t3) currentTime\<rparr>;
          t5 = t4\<lparr>m_geometryUpdated := False\<rparr>;
          t6 = foldl (processPacket ops) t5 (m_visionPackets t5)
      in t6\<lparr>m_visionPackets := []\<rparr>)"

definition queuePacket :: "WrapperPacket option \<Rightarrow> int \<Rightarrow> ('b, 'r) Tracker \<Rightarrow> ('b, 'r) Tracker" where
  "queuePacket packet time t =
     t\<lparr>m_visionPackets := m_visionPackets t @ [(packet, time)], m_hasVisionData := True\<rparr>"

section \<open>Filters for the examples\<close>

text \<open>
  Modelled from the spec: the classes \<^verbatim>\<open>RobotFilter\<close> and \<^verbatim>\<open>BallTracker\<close> are
  missing from the sources. The examples below run the tracker on these stand-ins, which
  follow section 4.2 of the specification: a vision frame sets the position to the converted
  detection, increments the frame counter and sets the time of the last update; a ball
  tracker accepts a detection nearer than 0.5 m to its position.
\<close>

record SpecRobotFilter =
  srf_lastUpdate :: int
  srf_frameCounter :: int
  srf_pos :: Vector

record SpecBallTracker =
  sbt_lastUpdate :: int
  sbt_frameCounter :: int
  sbt_initTime :: int
  sbt_primaryCamera :: nat
  sbt_pos :: Vector

definition specOps :: "(SpecBallTracker, SpecRobotFilter) FilterOps" where
  "specOps =
     \<lparr>bt_lastUpdate = sbt_lastUpdate,
      bt_frameCounter = sbt_frameCounter,
      bt_initTime = sbt_initTime,
      bt_primaryCamera = sbt_primaryCamera,
      bt_isFlying = (\<lambda>b. False),
      bt_distToCamera = (\<lambda>flying b. 0),
      bt_update = (\<lambda>time b. b),
      bt_acceptDetection = (\<lambda>ball time cam info b.
         distanceSq (sbt_pos b) (fromVision (Vector (ball_x ball) (ball_y ball))) < 1 / 4),
      bt_addVisionFrame = (\<lambda>ball time cam info b.
         b\<lparr>sbt_lastUpdate := time, sbt_frameCounter := sbt_frameCounter b + 1,
           sbt_pos := fromVision (Vector (ball_x ball) (ball_y ball))\<rparr>),
      bt_copy = (\<lambda>b cam. b\<lparr>sbt_primaryCamera := cam\<rparr>),
      bt_new = (\<lambda>ball time cam info rinfo.
         \<lparr>sbt_lastUpdate = time, sbt_frameCounter = 0, sbt_initTime = time,
          sbt_primaryCamera = cam, sbt_pos = fromVision (Vector (ball_x ball) (ball_y ball))\<rparr>),
      allocate = (\<lambda>used. Suc (fold max used 0)),
      rf_lastUpdate = srf_lastUpdate,
      rf_frameCounter = srf_frameCounter,
      rf_update = (\<lambda>time r. r),
      rf_distanceTo = (\<lambda>robot r.
         vdistance (srf_pos r) (fromVision (Vector (robot_x robot) (robot_y robot)))),
      rf_new = (\<lambda>robot time.
         \<lparr>srf_lastUpdate = time, srf_frameCounter = 0,
          srf_pos = fromVision (Vector (robot_x robot) (robot_y robot))\<rparr>),
      rf_addVisionFrame = (\<lambda>cam robot time r.
         r\<lparr>srf_lastUpdate := time, srf_frameCounter := srf_frameCounter r + 1,
           srf_pos := fromVision (Vector (robot_x robot) (robot_y robot))\<rparr>),
      rf_robotPos = srf_pos,
      rf_dribblerPos = srf_pos,
      rf_kickIsChip = (\<lambda>r. False),
      rf_kickIsLinear = (\<lambda>r. False)\<rparr>"

definition emptyTracker :: "(SpecBallTracker, SpecRobotFilter) Tracker" where
  "emptyTracker =
     \<lparr>m_cameraInfo = \<lparr>cameraPosition = Map.empty, focalLength = Map.empty\<rparr>,
      m_flip = False, m_systemDelay = 0, m_resetTime = 0,
      m_geometry = \<lparr>line_width = 0, field_width = 0, field_height = 0, boundary_width = 0,
         referee_width = 0, goal_width = 0, goal_depth = 0, goal_wall_width = 0,
         center_circle_radius = 0, defense_radius = 0, defense_stretch = 0,
         free_kick_from_defense_dist = 0, penalty_spot_from_field_line_dist = 0,
         penalty_line_from_spot_dist = 0, goal_height = 0\<rparr>,
      m_geometryUpdated = False, m_hasVisionData = False, m_lastUpdateTime = 0,
      m_visionPackets = [], m_robotFilterYellow = [], m_robotFilterBlue = [],
      m_ballFilter = [], m_currentBallFilter = None,
      m_aoiEnabled = False, m_aoi_x1 = 0, m_aoi_y1 = 0, m_aoi_x2 = 0, m_aoi_y2 = 0\<rparr>"


section \<open>Moving obstacles (trajectorypath.cpp)\<close>

text \<open>
  Modelled from the spec: \<^verbatim>\<open>LineSegment::distance\<close> is missing from the sources; it is
  the Euclidean distance from a point to the segment between two end points.
\<close>

definition lineSegmentDistance :: "Vector \<Rightarrow> Vector \<Rightarrow> Vector \<Rightarrow> real" where
  "lineSegmentDistance p1 p2 pos =
     (let dir = vsub p2 p1
      in if vdot (vsub pos p1) dir \<le> 0 then vdistance p1 pos
         else if vdot (vsub pos p2) dir \<ge> 0 then vdistance p2 pos
         else \<bar>vdot (vsub pos p1) (perpendicular dir)\<bar> / vlength dir)"

record MovingCircle =
  mc_startPos :: Vector
  mc_speed :: Vector
  mc_acc :: Vector
  mc_startTime :: real
  mc_endTime :: real
  mc_radius :: real
  mc_prio :: int

record MovingLine =
  ml_startPos1 :: Vector
  ml_speed1 :: Vector
  ml_acc1 :: Vector
  ml_startPos2 :: Vector
  ml_speed2 :: Vector
  ml_acc2 :: Vector
  ml_startTime :: real
  ml_endTime :: real
  ml_width :: real
  ml_prio :: int

definition mc_intersects :: "MovingCircle \<Rightarrow> Vector \<Rightarrow> real \<Rightarrow> bool" where
  "mc_intersects m pos time =
     (if time < mc_startTime m \<or> time > mc_endTime m then False
      else
        (let t = time - mc_startTime m;
             centerAtTime =
               vadd (vadd (mc_startPos m) (vscale (mc_speed m) t)) (vscale (mc_acc m) (1 / 2 * t * t))
         in distanceSq centerAtTime pos < mc_radius m * mc_radius m))"

definition mc_distance :: "MovingCircle \<Rightarrow> Vector \<Rightarrow> real \<Rightarrow> real" where
  "mc_distance m pos time =
     (if time < mc_startTime m \<or> time > mc_endTime m then FLT_MAX
      else
        (let t = time - mc_startTime m;
             centerAtTime =
               vadd (vadd (mc_startPos m) (vscale (mc_speed m) t)) (vscale (mc_acc m) (1 / 2 * t * t))
         in vdistance centerAtTime pos - mc_radius m))"

definition ml_intersects :: "MovingLine \<Rightarrow> Vector \<Rightarrow> real \<Rightarrow> bool" where
  "ml_intersects l pos time =
     (if time < ml_startTime l \<or> time > ml_endTime l then False
      else
        (let t = time - ml_startTime l;
             p1 = vadd (vadd (ml_startPos1 l) (vscale (ml_speed1 l) t)) (vscale (ml_acc1 l) (1 / 2 * t * t));
             p2 = vadd (vadd (ml_startPos2 l) (vscale (ml_speed2 l) t)) (vscale (ml_acc2 l) (1 / 2 * t * t))
         in lineSegmentDistance p1 p2 pos < ml_width l))"

definition ml_distance :: "MovingLine \<Rightarrow> Vector \<Rightarrow> real \<Rightarrow> real" where
  "ml_distance l pos time =
     (if time < ml_startTime l \<or> time > ml_endTime l then FLT_MAX
      else
        (let p1 = vadd (ml_startPos1 l) (vscale (ml_speed1 l) time);
             p2 = vadd (ml_startPos2 l) (vscale (ml_speed2 l) time)
         in lineSegmentDistance p1 p2 pos - ml_width l))"

section \<open>Alpha-time trajectory: exact end speed (alphatimetrajectory.cpp)\<close>

text \<open>
  The \<^verbatim>\<open>SpeedProfile\<close> that alphatimetrajectory.cpp fills in: per axis an acceleration,
  a counter and the first \<open>counter\<close> points (speed, time) of the array \<^verbatim>\<open>profile\<close>.
\<close>

record SpeedProfile1D =
  sp_acc :: real
  sp_counter :: nat
  sp_profile :: "(real \<times> real) list"

record SpeedProfile =
  sp_valid :: bool
  xProfile :: SpeedProfile1D
  yProfile :: SpeedProfile1D

definition necessaryAcceleration :: "Vector \<Rightarrow> Vector \<Rightarrow> Vector" where
  "necessaryAcceleration v0 distance =
     Vector (vec_x v0 * \<bar>vec_x v0\<bar> * (1 / 2) / vec_x distance)
            (vec_y v0 * \<bar>vec_y v0\<bar> * (1 / 2) / vec_y distance)"

definition MAX_ACCELERATION_FACTOR :: real where
  "MAX_ACCELERATION_FACTOR = 12 / 10"

text \<open>
  The special case of \<^verbatim>\<open>findTrajectoryExactEndSpeed\<close> for \<open>v1 = (0, 0)\<close>: \<open>Some\<close> of the
  profile it returns, \<open>None\<close> when the function goes on to the search. The code divides
  without a check. A zero component of \<open>position\<close> makes \<open>necessaryAcc\<close> infinite or NaN,
  and a zero component of \<open>necessaryAcc\<close> makes \<open>timeDiff\<close> NaN (0 / 0); every comparison
  with them fails, so these inputs go on to the search.
\<close>

definition closedFormStop :: "Vector \<Rightarrow> Vector \<Rightarrow> real \<Rightarrow> SpeedProfile option" where
  "closedFormStop v0 position acc =
     (if vec_x position = 0 \<or> vec_y position = 0 then None
      else
        (let necessaryAcc = necessaryAcceleration v0 position;
             accLength = vlength necessaryAcc
         in if vec_x necessaryAcc = 0 \<or> vec_y necessaryAcc = 0 then None
            else
              (let timeDiff = \<bar>\<bar>vec_x v0\<bar> / vec_x necessaryAcc - \<bar>vec_y v0\<bar> / vec_y necessaryAcc\<bar>
               in if accLength > acc \<and> accLength < acc * MAX_ACCELERATION_FACTOR \<and> timeDiff < 1 / 10
                  then Some
                    \<lparr>sp_valid = True,
                     xProfile = \<lparr>sp_acc = vec_x necessaryAcc, sp_counter = 2,
                                 sp_profile = [(vec_x v0, 0), (0, \<bar>vec_x v0 / vec_x necessaryAcc\<bar>)]\<rparr>,
                     yProfile = \<lparr>sp_acc = vec_y necessaryAcc, sp_counter = 2,
                                 sp_profile = [(vec_y v0, 0), (0, \<bar>vec_y v0 / vec_y necessaryAcc\<bar>)]\<rparr>\<rparr>
                  else None)))"

text \<open>
  \<^verbatim>\<open>findTrajectoryExactEndSpeed\<close>. The iterative search that follows the special case
  calls members of \<^verbatim>\<open>SpeedProfile\<close> that are not among the sources
  (\<^verbatim>\<open>calculateSlowDownPos\<close>, \<^verbatim>\<open>continuationSpeed\<close>, the five-argument
  \<^verbatim>\<open>calculate1DTrajectory\<close>); it is the parameter \<open>search\<close>.
\<close>

definition findTrajectoryExactEndSpeed ::
  "(Vector \<Rightarrow> Vector \<Rightarrow> Vector \<Rightarrow> real \<Rightarrow> real \<Rightarrow> real \<Rightarrow> bool \<Rightarrow> SpeedProfile)
   \<Rightarrow> Vector \<Rightarrow> Vector \<Rightarrow> Vector \<Rightarrow> real \<Rightarrow> real \<Rightarrow> real \<Rightarrow> bool \<Rightarrow> SpeedProfile"
where
  "findTrajectoryExactEndSpeed search v0 v1 position acc vMax slowDownTime highPrecision =
     (case (if v1 = Vector 0 0 then closedFormStop v0 position acc else None) of
        Some result \<Rightarrow> result
      | None \<Rightarrow> search v0 v1 position acc vMax slowDownTime highPrecision)"


section \<open>Trajectory queries (speedprofile.cpp)\<close>

record VT =
  vt_v :: Vector
  vt_t :: real


record Trajectory =
  tr_profile :: "VT list"
  tr_s0 :: Vector
  tr_slowDownTime :: real
  tr_correctionOffsetPerSecond :: Vector

definition MIN_ACC_FACTOR :: real where
  "MIN_ACC_FACTOR = 3 / 10"

text \<open>
  Modelled from the spec: the constant \<^verbatim>\<open>Trajectory::SLOW_DOWN_TIME\<close> is declared in a
  header that is missing from the sources; the specification gives 0.3 s.
\<close>

definition SLOW_DOWN_TIME :: real where
  "SLOW_DOWN_TIME = 3 / 10"

subsection \<open>ConstantAcceleration2D\<close>

text \<open>The precomputation of a segment is \<^verbatim>\<open>invSegmentTime\<close>.\<close>

definition ca_segmentOffset :: "VT \<Rightarrow> VT \<Rightarrow> Vector" where
  "ca_segmentOffset first second =
     vscale (vadd (vt_v first) (vt_v second)) (1 / 2 * (vt_t second - vt_t first))"

definition ca_partialSegmentOffsetAndSpeed ::
  "VT \<Rightarrow> VT \<Rightarrow> real \<Rightarrow> real \<Rightarrow> real \<Rightarrow> Vector \<times> Vector"
where
  "ca_partialSegmentOffsetAndSpeed first second invSegmentTime transformedT0 time =
     (let timeDiff = time - transformedT0;
          diff = (if vt_t second = vt_t first then 1 else timeDiff * invSegmentTime);
          speed = vadd (vt_v first) (vscale (vsub (vt_v second) (vt_v first)) diff);
          partDist = vscale (vadd (vt_v first) speed) (1 / 2 * timeDiff)
      in (partDist, speed))"

definition ca_timeForSegment :: "VT \<Rightarrow> VT \<Rightarrow> real" where
  "ca_timeForSegment first second = vt_t second - vt_t first"

definition ca_precomputeSegment :: "VT \<Rightarrow> VT \<Rightarrow> real" where
  "ca_precomputeSegment first second = 1 / (vt_t second - vt_t first)"

subsection \<open>SlowdownAcceleration2D\<close>

record SlowdownAcceleration2D =
  slowDownStartTime :: real
  endTime :: real

definition SlowdownAcceleration2D :: "real \<Rightarrow> real \<Rightarrow> SlowdownAcceleration2D" where
  "SlowdownAcceleration2D totalSimpleTime slowDownTime =
     \<lparr>slowDownStartTime = totalSimpleTime - slowDownTime,
      endTime = totalSimpleTime + SLOW_DOWN_TIME - slowDownTime\<rparr>"

record SegmentPrecomputation =
  constantPrecomputation :: real
  pre_v0 :: Vector
  pre_a0 :: Vector
  pre_a1 :: Vector
  pre_segmentTime :: real
  pre_partialDistance :: Vector

definition computeAcceleration :: "real \<Rightarrow> real" where
  "computeAcceleration timeToEnd =
     (let totalTime = 2 / (1 + MIN_ACC_FACTOR);
          aFactor = (MIN_ACC_FACTOR - 1) / totalTime;
          tFactor = 1 - timeToEnd / SLOW_DOWN_TIME
      in sqrt (1 + 2 * tFactor * aFactor))"

definition sa_segmentOffset ::
  "SlowdownAcceleration2D \<Rightarrow> VT \<Rightarrow> VT \<Rightarrow> SegmentPrecomputation \<Rightarrow> Vector"
where
  "sa_segmentOffset a first second precomp =
     (if vt_t second \<le> slowDownStartTime a \<or> vt_t first = vt_t second
      then ca_segmentOffset first second
      else
        (let t = pre_segmentTime precomp;
             speedDiff = vsub (vt_v second) (pre_v0 precomp);
             diffSign = Vector (sign (vec_x speedDiff)) (sign (vec_y speedDiff));
             signedA0 = Vector (vec_x diffSign * vec_x (pre_a0 precomp))
                               (vec_y diffSign * vec_y (pre_a0 precomp));
             aDiff = vsub (pre_a1 precomp) (pre_a0 precomp);
             signedADiff = Vector (vec_x diffSign * vec_x aDiff) (vec_y diffSign * vec_y aDiff);
             d = vadd (vadd (vscale (pre_v0 precomp) t) (vscale signedA0 (1 / 2 * t * t)))
                      (vscale signedADiff (1 / 6 * t * t))
         in vadd (pre_partialDistance precomp) d))"


definition sa_timeForSegment ::
  "SlowdownAcceleration2D \<Rightarrow> VT \<Rightarrow> VT \<Rightarrow> SegmentPrecomputation \<Rightarrow> real"
where
  "sa_timeForSegment a first second precomp =
     (if vt_t second \<le> slowDownStartTime a then vt_t second - vt_t first
      else if vt_t first < slowDownStartTime a
      then slowDownStartTime a - vt_t first + pre_segmentTime precomp
      else pre_segmentTime precomp)"

definition sa_precomputeSegment :: "SlowdownAcceleration2D \<Rightarrow> VT \<Rightarrow> VT \<Rightarrow> SegmentPrecomputation" where
  "sa_precomputeSegment a first second =
     (let result = \<lparr>constantPrecomputation = ca_precomputeSegment first second,
                     pre_v0 = Vector 0 0, pre_a0 = Vector 0 0, pre_a1 = Vector 0 0,
                     pre_segmentTime = 0, pre_partialDistance = Vector 0 0\<rparr>
      in if vt_t second \<le> slowDownStartTime a \<or> vt_t first = vt_t second then result
         else
           (let (partialDistance, v0, t0) =
                  (if vt_t first < slowDownStartTime a
                   then (let partial = ca_partialSegmentOffsetAndSpeed first second
                                         (constantPrecomputation result) (vt_t first)
                                         (slowDownStartTime a)
                         in (fst partial, snd partial, slowDownStartTime a))
                   else (Vector 0 0, vt_v first, vt_t first));
                baseAcc = vscale (vabs (vsub (vt_v first) (vt_v second)))
                            (1 / (vt_t second - vt_t first));
                accelerationFactor0 = computeAcceleration (endTime a - t0);
                accelerationFactor1 = computeAcceleration (endTime a - vt_t second)
            in result\<lparr>pre_partialDistance := partialDistance,
                      pre_v0 := v0,
                      pre_a0 := vscale baseAcc accelerationFactor0,
                      pre_a1 := vscale baseAcc accelerationFactor1,
                      pre_segmentTime :=
                        2 * (vt_t second - t0) / (accelerationFactor0 + accelerationFactor1)\<rparr>))"

subsection \<open>Trajectory\<close>





fun endPosition_loop ::
  "SlowdownAcceleration2D \<Rightarrow> Vector \<Rightarrow> real \<Rightarrow> VT \<Rightarrow> VT list \<Rightarrow> Vector \<times> real"
where
  "endPosition_loop a offset totalTime first [] = (offset, totalTime)"
| "endPosition_loop a offset totalTime first (second # rest) =
     (let precomputation = sa_precomputeSegment a first second
      in endPosition_loop a
           (vadd offset (sa_segmentOffset a first second precomputation))
           (totalTime + sa_timeForSegment a first second precomputation) second rest)"

definition endPosition :: "Trajectory \<Rightarrow> Vector option" where
  "endPosition tr =
     (case tr_profile tr of
        [] \<Rightarrow> None
      | first # rest \<Rightarrow>
          (let acceleration =
                 SlowdownAcceleration2D (vt_t (last (first # rest))) (tr_slowDownTime tr);
               (offset, totalTime) = endPosition_loop acceleration (tr_s0 tr) 0 first rest
           in Some (vadd offset (vscale (tr_correctionOffsetPerSecond tr) totalTime))))"





section \<open>Ball ground collision filter (ballgroundcollisionfilter.cpp)\<close>

record RobotInfo =
  ri_identifier :: int
  ri_robotPos :: Vector
  ri_dribblerPos :: Vector
  ri_speed :: Vector

record BallOffsetInfo =
  robotIdentifier :: int
  ballOffset :: Vector
  pushingBallPos :: Vector

text \<open>The fields of \<^verbatim>\<open>world::Ball\<close> that the filter writes.\<close>

record Ball =
  p_x :: real
  p_y :: real
  v_x :: real
  v_y :: real

record VisionFrame =
  vf_time :: int
  vf_x :: real
  vf_y :: real

text \<open>
  The ground filter class behind \<^verbatim>\<open>m_groundFilter\<close> and \<^verbatim>\<open>m_pastFilter\<close> is not
  among the sources: its state is the type parameter \<open>'g\<close>, its member functions are the
  fields of this record. \<open>gf_writeBallState\<close> returns the ball message as the filter
  leaves it, and the filter's new state.
\<close>

record 'g GroundFilterOps =
  gf_writeBallState :: "'g \<Rightarrow> Ball \<Rightarrow> int \<Rightarrow> RobotInfo list \<Rightarrow> Ball \<times> 'g"
  gf_processVisionFrame :: "'g \<Rightarrow> VisionFrame \<Rightarrow> 'g"
  gf_reset :: "'g \<Rightarrow> VisionFrame \<Rightarrow> 'g"
  gf_acceptDetection :: "'g \<Rightarrow> VisionFrame \<Rightarrow> bool"

record 'g BallGroundCollisionFilter =
  m_groundFilter :: 'g
  m_pastFilter :: 'g
  m_lastVisionTime :: int
  m_localBallOffset :: "BallOffsetInfo option"
  m_insideRobotOffset :: "BallOffsetInfo option"
  m_lastReportedBallPos :: Vector
  m_resetFilters :: bool
  m_feasiblyInvisible :: bool
  m_primaryCamera :: nat
  m_ballCameraInfo :: CameraInfo

text \<open>
  Modelled from the spec: \<^verbatim>\<open>ROBOT_RADIUS\<close> and \<^verbatim>\<open>ROBOT_HEIGHT\<close> are declared in a
  header that is missing from the sources; the specification gives 0.088 and 0.148.
\<close>

definition ROBOT_RADIUS :: real where
  "ROBOT_RADIUS = 88 / 1000"

definition ROBOT_HEIGHT :: real where
  "ROBOT_HEIGHT = 148 / 1000"

text \<open>Eigen's \<^verbatim>\<open>normalized()\<close>; the zero vector stays the zero vector.\<close>

definition normalized :: "Vector \<Rightarrow> Vector" where
  "normalized a = vscale a (1 / vlength a)"

definition processVisionFrame ::
  "'g GroundFilterOps \<Rightarrow> VisionFrame \<Rightarrow> 'g BallGroundCollisionFilter \<Rightarrow> 'g BallGroundCollisionFilter"
where
  "processVisionFrame ops frame f =
     (let f1 = f\<lparr>m_lastVisionTime := vf_time frame\<rparr>
      in if m_resetFilters f1
         then f1\<lparr>m_groundFilter := gf_reset ops (m_groundFilter f1) frame,
                 m_pastFilter := gf_reset ops (m_pastFilter f1) frame,
                 m_resetFilters := False\<rparr>
         else f1\<lparr>m_groundFilter := gf_processVisionFrame ops (m_groundFilter f1) frame,
                 m_pastFilter := gf_processVisionFrame ops (m_pastFilter f1) frame\<rparr>)"

definition acceptDetection ::
  "'g GroundFilterOps \<Rightarrow> VisionFrame \<Rightarrow> 'g BallGroundCollisionFilter \<Rightarrow> bool"
where
  "acceptDetection ops frame f =
     (let ACCEPT_BALL_DIST = 1 / 2;
          reportedBallDist = vlength (vsub (m_lastReportedBallPos f) (Vector (vf_x frame) (vf_y frame)))
      in reportedBallDist < ACCEPT_BALL_DIST \<or> gf_acceptDetection ops (m_groundFilter f) frame)"

subsection \<open>Intersections\<close>

definition intersectLineCircle ::
  "Vector \<Rightarrow> Vector \<Rightarrow> Vector \<Rightarrow> real \<Rightarrow> (Vector \<times> real) list"
where
  "intersectLineCircle offset dir0 center radius =
     (let dir = normalized dir0;
          constPart = vsub offset center;
          a = vdot dir dir;
          b = 2 * vdot dir constPart;
          c = vdot constPart constPart - radius * radius;
          det = b * b - 4 * a * c
      in if det < 0 then []
         else if det < 1 / 100000
         then (let lambda1 = (- b) / (2 * a) in [(vadd offset (vscale dir lambda1), lambda1)])
         else
           (let lambda1 = (- b + sqrt det) / (2 * a);
                lambda2 = (- b - sqrt det) / (2 * a);
                point1 = vadd offset (vscale dir lambda1);
                point2 = vadd offset (vscale dir lambda2)
            in [(point1, lambda1), (point2, lambda2)]))"

definition intersectLineSegmentCircle ::
  "Vector \<Rightarrow> Vector \<Rightarrow> Vector \<Rightarrow> real \<Rightarrow> Vector option"
where
  "intersectLineSegmentCircle p1 p2 center radius =
     (let dist = vlength (vsub p2 p1);
          intersections = intersectLineCircle p1 (vsub p2 p1) center radius
      in case intersections of
           [] \<Rightarrow> None
         | [i] \<Rightarrow> (if snd i \<ge> 0 \<and> snd i \<le> dist then Some (fst i) else None)
         | i0 # i1 # _ \<Rightarrow>
             (let (j0, j1) = (if snd i0 > snd i1 then (i1, i0) else (i0, i1))
              in if snd j0 \<ge> 0 \<and> snd j0 \<le> dist then Some (fst j0)
                 else if snd j1 \<ge> 0 \<and> snd j1 \<le> dist then Some (fst j1)
                 else None))"

definition intersectLineLine ::
  "Vector \<Rightarrow> Vector \<Rightarrow> Vector \<Rightarrow> Vector \<Rightarrow> (real \<times> real) option"
where
  "intersectLineLine pos1 dir1 pos2 dir2 =
     (if \<bar>vdot (perpendicular dir1) dir2\<bar> / (vlength dir1 * vlength dir2) < 1 / 10000 then None
      else
        (let normal1 = perpendicular dir1;
             normal2 = perpendicular dir2;
             diff = vsub pos2 pos1;
             t1 = vdot normal2 diff / vdot normal2 dir1;
             t2 = - vdot normal1 diff / vdot normal1 dir2
         in Some (t1, t2)))"

definition DRIBBLER_WIDTH :: real where
  "DRIBBLER_WIDTH = 7 / 100"

definition intersectLineSegmentRobot ::
  "Vector \<Rightarrow> Vector \<Rightarrow> RobotInfo \<Rightarrow> real \<Rightarrow> real \<Rightarrow> Vector option"
where
  "intersectLineSegmentRobot p1 p2 robot robotRadius0 robotSizeFactor =
     (let robotRadius = (if robotSizeFactor \<noteq> 1 then robotRadius0 * robotSizeFactor
                         else robotRadius0);
          dribblerPos =
            (if robotSizeFactor \<noteq> 1
             then vadd (ri_robotPos robot)
                    (vscale (vsub (ri_dribblerPos robot) (ri_robotPos robot)) robotSizeFactor)
             else ri_dribblerPos robot);
          toDribbler = normalized (vsub dribblerPos (ri_robotPos robot));
          dribblerSideways = perpendicular toDribbler;
          dribblerIntersection = intersectLineLine dribblerPos dribblerSideways p1 (vsub p2 p1);
          dribblerIntersectionPos =
            (case dribblerIntersection of
               None \<Rightarrow> None
             | Some (l1, l2) \<Rightarrow>
                 if \<bar>l1\<bar> \<le> DRIBBLER_WIDTH / 2 \<and> l2 \<ge> 0 \<and> l2 \<le> 1
                 then Some (vadd dribblerPos (vscale dribblerSideways l1))
                 else None)
      in if dribblerIntersectionPos \<noteq> None \<and> vdot (vsub p1 dribblerPos) toDribbler \<ge> 0
         then dribblerIntersectionPos
         else
           (let hullIntersection = intersectLineSegmentCircle p1 p2 (ri_robotPos robot) robotRadius
            in case (dribblerIntersectionPos, hullIntersection) of
                 (Some d, Some h) \<Rightarrow>
                   if vlength (vsub h p1) < vlength (vsub d p1) then hullIntersection
                   else dribblerIntersectionPos
               | _ \<Rightarrow> hullIntersection))"

definition isInsideRobot :: "Vector \<Rightarrow> RobotInfo \<Rightarrow> real \<Rightarrow> bool" where
  "isInsideRobot pos robot robotRadius =
     (if vlength (vsub pos (ri_robotPos robot)) > robotRadius then False
      else
        (let toDribbler = normalized (vsub (ri_dribblerPos robot) (ri_robotPos robot))
         in vdot (vsub pos (ri_dribblerPos robot)) toDribbler \<le> 0))"

definition BALL_RADIUS :: real where
  "BALL_RADIUS = 215 / 10000"

definition isBallVisible ::
  "Vector \<Rightarrow> RobotInfo \<Rightarrow> real \<Rightarrow> real \<Rightarrow> real \<times> real \<times> real \<Rightarrow> bool"
where
  "isBallVisible pos robot robotRadius robotHeight cameraPos =
     (case cameraPos of (cx, cy, cz) \<Rightarrow>
        (let toBallX = vec_x pos - cx;
             toBallY = vec_y pos - cy;
             len = (cz - robotHeight) / (cz - BALL_RADIUS);
             projected2D = Vector (cx + toBallX * len) (cy + toBallY * len);
             inRadius = (vlength (vsub (ri_robotPos robot) projected2D) \<le> robotRadius);
             frontOfDribbler =
               (vdot (vsub projected2D (ri_dribblerPos robot))
                     (vsub (ri_dribblerPos robot) (ri_robotPos robot)) > 0);
             hasIntersection =
               (intersectLineSegmentRobot pos projected2D robot robotRadius (98 / 100) \<noteq> None)
         in (\<not> inRadius \<or> frontOfDribbler) \<and> \<not> hasIntersection))"

subsection \<open>The reported ball state\<close>

definition updateDribblingInfo ::
  "Vector \<Rightarrow> RobotInfo \<Rightarrow> 'g BallGroundCollisionFilter \<Rightarrow> 'g BallGroundCollisionFilter"
where
  "updateDribblingInfo projectedBallPos robot f =
     (let toDribbler = normalized (vsub (ri_dribblerPos robot) (ri_robotPos robot));
          offset =
            \<lparr>robotIdentifier = ri_identifier robot,
             ballOffset =
               Vector (vdot (vsub projectedBallPos (ri_robotPos robot)) toDribbler)
                      (vdot (vsub projectedBallPos (ri_robotPos robot)) (perpendicular toDribbler)),
             pushingBallPos = projectedBallPos\<rparr>
      in f\<lparr>m_localBallOffset := Some offset\<rparr>)"

definition unprojectRelativePosition :: "Vector \<Rightarrow> RobotInfo \<Rightarrow> Vector" where
  "unprojectRelativePosition relativePos robot =
     (let toDribbler = normalized (vsub (ri_dribblerPos robot) (ri_robotPos robot));
          relativeBallPos = vadd (vscale toDribbler (vec_x relativePos))
                                 (vscale (perpendicular toDribbler) (vec_y relativePos))
      in vadd (ri_robotPos robot) relativeBallPos)"

definition setBallData :: "Ball \<Rightarrow> Vector \<Rightarrow> Vector \<Rightarrow> bool \<Rightarrow> Ball" where
  "setBallData ball pos speed writeSpeed =
     (let ball1 = ball\<lparr>p_x := vec_x pos, p_y := vec_y pos\<rparr>
      in if writeSpeed then ball1\<lparr>v_x := vec_x speed, v_y := vec_y speed\<rparr> else ball1)"

text \<open>
  \<^verbatim>\<open>m_cameraInfo->cameraPosition[m_primaryCamera]\<close>: a camera without an entry reads as
  the default position (0, 0, 0).
\<close>

definition primaryCameraPosition :: "'g BallGroundCollisionFilter \<Rightarrow> real \<times> real \<times> real" where
  "primaryCameraPosition f =
     (case cameraPosition (m_ballCameraInfo f) (m_primaryCamera f) of
        None \<Rightarrow> (0, 0, 0)
      | Some p \<Rightarrow> p)"

definition checkFeasibleInvisibility :: "RobotInfo list \<Rightarrow> 'g BallGroundCollisionFilter \<Rightarrow> bool" where
  "checkFeasibleInvisibility robots f =
     (case m_localBallOffset f of
        None \<Rightarrow> False
      | Some off \<Rightarrow>
          (case find (\<lambda>robot. ri_identifier robot = robotIdentifier off) robots of
             None \<Rightarrow> False
           | Some robot \<Rightarrow>
               if \<not> isBallVisible (pushingBallPos off) robot ROBOT_RADIUS ROBOT_HEIGHT
                      (primaryCameraPosition f)
               then True
               else \<not> isBallVisible (m_lastReportedBallPos f) robot ROBOT_RADIUS ROBOT_HEIGHT
                        (primaryCameraPosition f)))"

text \<open>
  \<^verbatim>\<open>computeBallState\<close> asks the ground filter and the past filter for their states and
  then returns ("remove this once all issues are fixed"). It yields the ball message, the
  state of the past filter and the filter.
\<close>

definition computeBallState ::
  "'g GroundFilterOps \<Rightarrow> Ball \<Rightarrow> int \<Rightarrow> RobotInfo list \<Rightarrow> 'g BallGroundCollisionFilter
   \<Rightarrow> Ball \<times> Ball \<times> 'g BallGroundCollisionFilter"
where
  "computeBallState ops ball time robots f =
     (let (ball1, ground) = gf_writeBallState ops (m_groundFilter f) ball time robots;
          (pastState, past) =
             gf_writeBallState ops (m_pastFilter f)
               \<lparr>p_x = 0, p_y = 0, v_x = 0, v_y = 0\<rparr> (m_lastVisionTime f + 1) robots
      in (ball1, pastState, f\<lparr>m_groundFilter := ground, m_pastFilter := past\<rparr>))"

definition writeBallState ::
  "'g GroundFilterOps \<Rightarrow> Ball \<Rightarrow> int \<Rightarrow> RobotInfo list \<Rightarrow> 'g BallGroundCollisionFilter
   \<Rightarrow> Ball \<times> 'g BallGroundCollisionFilter"
where
  "writeBallState ops ball time robots f =
     (let (ball1, pastState, f1) = computeBallState ops ball time robots f;
          f2 = f1\<lparr>m_lastReportedBallPos := Vector (p_x ball1) (p_y ball1)\<rparr>
      in (ball1, f2\<lparr>m_feasiblyInvisible := checkFeasibleInvisibility robots f2\<rparr>))"

subsection \<open>The statements behind the return\<close>

text \<open>
  The rest of \<^verbatim>\<open>computeBallState\<close> follows its unconditional \<^verbatim>\<open>return\<close> and never
  runs. It is kept here to state what it would report. Integer division in C++ drops the
  fraction.
\<close>

definition truncDiv :: "int \<Rightarrow> int \<Rightarrow> int" where
  "truncDiv a b = (if a < 0 then - ((- a) div b) else a div b)"

definition RESET_SPEED_TIME :: int where
  "RESET_SPEED_TIME = 150"

definition ACTIVATE_DRIBBLING_TIME :: int where
  "ACTIVATE_DRIBBLING_TIME = 80"

definition isZeroVector :: "Vector \<Rightarrow> real \<Rightarrow> bool" where
  "isZeroVector a prec = (\<bar>vec_x a\<bar> \<le> prec \<and> \<bar>vec_y a\<bar> \<le> prec)"

text \<open>
  The projection of a ball inside a robot onto the robot's hull along the relative speed:
  \<open>None\<close> when one of the two intersections is missing.
\<close>

definition projectOntoHull :: "Vector \<Rightarrow> Vector \<Rightarrow> RobotInfo \<Rightarrow> Vector option" where
  "projectOntoHull pastPos pastSpeed robot =
     (let relativeSpeed = vsub pastSpeed (ri_speed robot);
          projectDir = (if isZeroVector relativeSpeed (1 / 1000)
                        then vsub pastPos (ri_robotPos robot)
                        else vneg relativeSpeed);
          closeLineIntersection =
            intersectLineSegmentRobot pastPos (vscale projectDir 1000) robot ROBOT_RADIUS 1;
          farLineIntersection =
            intersectLineSegmentRobot pastPos (vscale (vneg projectDir) 1000) robot ROBOT_RADIUS 1
      in case (closeLineIntersection, farLineIntersection) of
           (Some close, Some far) \<Rightarrow>
             (let closeDist = vlength (vsub close pastPos);
                  farDist = vlength (vsub far pastPos)
              in if closeDist < farDist * 2 then Some close else Some far)
         | _ \<Rightarrow> None)"

fun collisionRules_loop ::
  "Vector \<Rightarrow> Vector \<Rightarrow> bool \<Rightarrow> Ball \<Rightarrow> Vector \<Rightarrow> 'g BallGroundCollisionFilter \<Rightarrow> RobotInfo list
   \<Rightarrow> Ball \<times> 'g BallGroundCollisionFilter"
where
  "collisionRules_loop pastPos pastSpeed writeBallSpeed ball currentPos f [] =
     (ball, f\<lparr>m_insideRobotOffset := None\<rparr>)"
| "collisionRules_loop pastPos pastSpeed writeBallSpeed ball currentPos f (robot # rest) =
     (let keep =
            (if isInsideRobot pastPos robot ROBOT_RADIUS
             then (case m_insideRobotOffset f of
                     None \<Rightarrow> None
                   | Some off \<Rightarrow>
                       if robotIdentifier off = ri_identifier robot then Some off else None)
             else None);
          projected =
            (if isInsideRobot pastPos robot ROBOT_RADIUS \<and> keep = None
             then projectOntoHull pastPos pastSpeed robot
             else None)
      in case keep of
           Some off \<Rightarrow>
             (setBallData ball (unprojectRelativePosition (ballOffset off) robot)
                (ri_speed robot) writeBallSpeed,
              f\<lparr>m_localBallOffset := m_insideRobotOffset f\<rparr>)
         | None \<Rightarrow>
             (case projected of
                Some p \<Rightarrow>
                  (let f1 = updateDribblingInfo p robot f
                   in (setBallData ball p (ri_speed robot) writeBallSpeed,
                       f1\<lparr>m_insideRobotOffset := m_localBallOffset f1\<rparr>))
              | None \<Rightarrow>
                  (case intersectLineSegmentRobot pastPos currentPos robot ROBOT_RADIUS 1 of
                     Some intersection \<Rightarrow>
                       collisionRules_loop pastPos pastSpeed writeBallSpeed
                         (setBallData ball intersection (ri_speed robot) writeBallSpeed)
                         intersection (updateDribblingInfo intersection robot f) rest
                   | None \<Rightarrow>
                       collisionRules_loop pastPos pastSpeed writeBallSpeed ball currentPos f rest)))"

definition collisionRules ::
  "Ball \<Rightarrow> Ball \<Rightarrow> int \<Rightarrow> RobotInfo list \<Rightarrow> 'g BallGroundCollisionFilter
   \<Rightarrow> Ball \<times> 'g BallGroundCollisionFilter"
where
  "collisionRules ball pastState time robots f =
     (let invisibleTimeMs = truncDiv (time - m_lastVisionTime f) 1000000;
          writeBallSpeed = (invisibleTimeMs > RESET_SPEED_TIME);
          dribbling =
            (if invisibleTimeMs > ACTIVATE_DRIBBLING_TIME
             then (case m_localBallOffset f of
                     None \<Rightarrow> None
                   | Some off \<Rightarrow>
                       (case find (\<lambda>robot. ri_identifier robot = robotIdentifier off) robots of
                          None \<Rightarrow> None
                        | Some robot \<Rightarrow> Some (off, robot)))
             else None)
      in case dribbling of
           Some (off, robot) \<Rightarrow>
             (let ballPos = unprojectRelativePosition (ballOffset off) robot;
                  off1 = (if isInsideRobot (pushingBallPos off) robot ROBOT_RADIUS
                          then off\<lparr>pushingBallPos := ballPos\<rparr> else off);
                  pushingPosVisible =
                    isBallVisible (pushingBallPos off1) robot ROBOT_RADIUS ROBOT_HEIGHT
                      (primaryCameraPosition f);
                  ball1 = (if pushingPosVisible
                           then setBallData ball ballPos (ri_speed robot) writeBallSpeed
                           else setBallData ball (pushingBallPos off1) (Vector 0 0) writeBallSpeed)
              in (ball1, f\<lparr>m_localBallOffset := Some off1, m_resetFilters := True\<rparr>))
         | None \<Rightarrow>
             (let f1 = (if invisibleTimeMs \<le> ACTIVATE_DRIBBLING_TIME
                        then f\<lparr>m_localBallOffset := None\<rparr> else f);
                  pastPos = Vector (p_x pastState) (p_y pastState);
                  pastSpeed = Vector (v_x pastState) (v_y pastState);
                  currentPos = Vector (p_x ball) (p_y ball)
              in collisionRules_loop pastPos pastSpeed writeBallSpeed ball currentPos f1 robots))"


subsection \<open>A ground filter and a ball inside a robot\<close>

text \<open>
  Modelled from the spec: the ground filter class is missing from the sources. The
  examples use a stand-in whose state is the ball it reports: \<open>writeBallState\<close> writes
  that state into the message, a vision frame moves the ball to the detection.
\<close>

definition specGroundOps :: "Ball GroundFilterOps" where
  "specGroundOps =
     \<lparr>gf_writeBallState = (\<lambda>g ball time robots. (g, g)),
      gf_processVisionFrame = (\<lambda>g frame. g\<lparr>p_x := vf_x frame, p_y := vf_y frame\<rparr>),
      gf_reset = (\<lambda>g frame. \<lparr>p_x = vf_x frame, p_y = vf_y frame, v_x = 0, v_y = 0\<rparr>),
      gf_acceptDetection = (\<lambda>g frame.
         distanceSq (Vector (p_x g) (p_y g)) (Vector (vf_x frame) (vf_y frame)) < 1 / 4)\<rparr>"

text \<open>
  A robot at the origin that faces along x, and a filter whose past estimate is the
  robot's centre, moving with speed (1, 0), while the ground estimate is (0.02, 0).
\<close>

definition robotAtOrigin :: RobotInfo where
  "robotAtOrigin =
     \<lparr>ri_identifier = 1, ri_robotPos = Vector 0 0, ri_dribblerPos = Vector (8 / 100) 0,
      ri_speed = Vector 0 0\<rparr>"

definition ballInsideRobot :: "Ball BallGroundCollisionFilter" where
  "ballInsideRobot =
     \<lparr>m_groundFilter = \<lparr>p_x = 2 / 100, p_y = 0, v_x = 1, v_y = 0\<rparr>,
      m_pastFilter = \<lparr>p_x = 0, p_y = 0, v_x = 1, v_y = 0\<rparr>,
      m_lastVisionTime = 0,
      m_localBallOffset = None,
      m_insideRobotOffset = None,
      m_lastReportedBallPos = Vector 0 0,
      m_resetFilters = False,
      m_feasiblyInvisible = False,
      m_primaryCamera = 0,
      m_ballCameraInfo = \<lparr>cameraPosition = [0 \<mapsto> (0, 0, 4)], focalLength = [0 \<mapsto> 500]\<rparr>\<rparr>"


section \<open>Trajectory planner (trajectorypath.cpp)\<close>

subsection \<open>Static obstacles and the playfield (path.cpp)\<close>

text \<open>
  The base class \<^verbatim>\<open>AbstractPath\<close> is not among the sources. The members that
  trajectorypath.cpp uses (\<^verbatim>\<open>m_obstacles\<close>, \<^verbatim>\<open>m_radius\<close>, \<^verbatim>\<open>m_rng\<close>,
  \<^verbatim>\<open>pointInPlayfield\<close>, \<^verbatim>\<open>collectObstacles\<close>) are taken as class \<^verbatim>\<open>Path\<close>
  (path.h, path.cpp) has them. \<^verbatim>\<open>Vector::det\<close> is the signed area determinant
  (positive when the third point lies to the left).
\<close>

datatype Obstacle =
  Circle (circle_center: Vector) (circle_radius: real) (circle_prio: int)
| Rect (rect_bottom_left: Vector) (rect_top_right: Vector) (rect_prio: int)
| Triangle (tri_p1: Vector) (tri_p2: Vector) (tri_p3: Vector) (tri_lineWidth: real) (tri_prio: int)
| Line (line_p1: Vector) (line_p2: Vector) (line_width: real) (line_prio: int)

fun obstacle_prio :: "Obstacle \<Rightarrow> int" where
  "obstacle_prio (Circle c r p) = p"
| "obstacle_prio (Rect bl tr p) = p"
| "obstacle_prio (Triangle p1 p2 p3 w p) = p"
| "obstacle_prio (Line p1 p2 w p) = p"

definition vdet :: "Vector \<Rightarrow> Vector \<Rightarrow> Vector \<Rightarrow> real" where
  "vdet a b c =
     (vec_x b - vec_x a) * (vec_y c - vec_y a) - (vec_y b - vec_y a) * (vec_x c - vec_x a)"

fun obstacle_distance :: "Obstacle \<Rightarrow> Vector \<Rightarrow> real" where
  "obstacle_distance (Circle center radius p) v = vdistance v center - radius"
| "obstacle_distance (Line p1 p2 width p) v = lineSegmentDistance p1 p2 v - width"
| "obstacle_distance (Rect bottom_left top_right p) v =
     (let distX = max (vec_x bottom_left - vec_x v) (vec_x v - vec_x top_right);
          distY = max (vec_y bottom_left - vec_y v) (vec_y v - vec_y top_right)
      in if distX \<ge> 0 \<and> distY \<ge> 0 then sqrt (distX * distX + distY * distY)
         else if distX < 0 \<and> distY < 0 then max distX distY
         else if distX < 0 then distY
         else distX)"
| "obstacle_distance (Triangle p1 p2 p3 lineWidth p) v =
     (let det1 = vdet p2 p3 v / vdistance p2 p3;
          det2 = vdet p3 p1 v / vdistance p3 p1;
          det3 = vdet p1 p2 v / vdistance p1 p2
      in if det1 \<ge> 0 \<and> det2 \<ge> 0 \<and> det3 \<ge> 0 then - min det1 (min det2 det3) - lineWidth
         else if det1 * det2 * det3 < 0 then - min det1 (min det2 det3) - lineWidth
         else if det1 > 0 then vdistance p1 v - lineWidth
         else if det2 > 0 then vdistance p2 v - lineWidth
         else if det3 > 0 then vdistance p3 v - lineWidth
         else 42)"

subsection \<open>State of the planner\<close>

text \<open>
  \<^verbatim>\<open>m_bestResultInfo.time\<close> and \<^verbatim>\<open>m_bestEndPointDistance\<close> are set to
  \<^verbatim>\<open>std::numeric_limits<float>::infinity()\<close>: a float that may be infinite.
\<close>

datatype xfloat = Fin real | Infty

fun xless :: "xfloat \<Rightarrow> xfloat \<Rightarrow> bool" where
  "xless (Fin a) (Fin b) = (a < b)"
| "xless (Fin a) Infty = True"
| "xless Infty b = False"

fun xadd :: "xfloat \<Rightarrow> real \<Rightarrow> xfloat" where
  "xadd (Fin a) b = Fin (a + b)"
| "xadd Infty b = Infty"

text \<open>Multiplication by a positive constant.\<close>

fun xmul :: "xfloat \<Rightarrow> real \<Rightarrow> xfloat" where
  "xmul (Fin a) b = Fin (a * b)"
| "xmul Infty b = Infty"

fun xmin :: "xfloat \<Rightarrow> real \<Rightarrow> real" where
  "xmin (Fin a) b = min a b"
| "xmin Infty b = b"

record BestTrajectoryInfo =
  bti_time :: xfloat
  bti_centerTime :: real
  bti_angle :: real
  bti_midSpeed :: Vector
  bti_valid :: bool

record TrajectoryGenerationInfo =
  gi_time :: real
  gi_angle :: real
  gi_slowDownTime :: real
  gi_v0 :: Vector
  gi_v1 :: Vector
  gi_desiredDistance :: Vector
  gi_fastEndSpeed :: bool

record Point =
  pt_pos :: Vector
  pt_speed :: Vector
  pt_time :: real

text \<open>
  The members of \<^verbatim>\<open>TrajectoryPath\<close> and of its base class. The frame input data
  \<^verbatim>\<open>v0\<close>, \<^verbatim>\<open>v1\<close>, \<^verbatim>\<open>distance\<close>, \<^verbatim>\<open>s0\<close>, \<^verbatim>\<open>s1\<close> carry the prefix
  \<open>in_\<close>. \<open>'r\<close> is the state of the random number generator.
\<close>

record 'r TrajectoryPath =
  m_rng :: 'r
  m_radius :: real
  m_boundary_bottom_left :: Vector
  m_boundary_top_right :: Vector
  m_circleObstacles :: "Obstacle list"
  m_rectObstacles :: "Obstacle list"
  m_triangleObstacles :: "Obstacle list"
  m_lineObstacles :: "Obstacle list"
  m_obstacles :: "Obstacle list"
  minX :: real
  minY :: real
  fieldSize :: Vector
  in_v0 :: Vector
  in_v1 :: Vector
  in_distance :: Vector
  in_s0 :: Vector
  in_s1 :: Vector
  exponentialSlowDown :: bool
  m_movingCircles :: "MovingCircle list"
  m_movingLines :: "MovingLine list"
  m_bestResultInfo :: BestTrajectoryInfo
  m_generationInfo :: "TrajectoryGenerationInfo list"
  m_bestEndPoint :: Vector
  m_bestEndPointDistance :: xfloat
  m_bestEscapingTime :: real
  m_bestEscapingAngle :: real
  MAX_SPEED :: real
  MAX_SPEED_SQUARED :: real
  ACCELERATION :: real

definition TOTAL_SLOW_DOWN_TIME :: real where
  "TOTAL_SLOW_DOWN_TIME = 3 / 10"

definition OBSTACLE_AVOIDANCE_RADIUS :: real where
  "OBSTACLE_AVOIDANCE_RADIUS = 1 / 10"

definition OBSTACLE_AVOIDANCE_BONUS :: real where
  "OBSTACLE_AVOIDANCE_BONUS = 12 / 10"

text \<open>
  trajectorypath.cpp is written against a revision of \<^verbatim>\<open>SpeedProfile\<close> and
  \<^verbatim>\<open>AlphaTimeTrajectory\<close> that is not among the sources (it reads
  \<^verbatim>\<open>inputTime\<close>, \<^verbatim>\<open>inputAngle\<close> and calls \<^verbatim>\<open>isInputValidFastEndSpeed\<close>), and
  against the class \<^verbatim>\<open>RNG\<close>. A speed profile is a value of the type parameter \<open>'p\<close>;
  the functions called on it, the trajectory generators and the two functions of the
  random number generator are the fields of this record. Every result below holds for all
  of them.
\<close>

record ('p, 'r) PlannerOps =
  isValid :: "'p \<Rightarrow> bool"
  inputTime :: "'p \<Rightarrow> real"
  inputAngle :: "'p \<Rightarrow> real"
  profileTime :: "'p \<Rightarrow> real"
  timeWithSlowDown :: "'p \<Rightarrow> real \<Rightarrow> real"
  positionForTime :: "'p \<Rightarrow> real \<Rightarrow> Vector"
  positionForTimeSlowDown :: "'p \<Rightarrow> real \<Rightarrow> real \<Rightarrow> Vector"
  speedForTime :: "'p \<Rightarrow> real \<Rightarrow> Vector"
  speedForTimeSlowDown :: "'p \<Rightarrow> real \<Rightarrow> real \<Rightarrow> Vector"
  calculateSlowDownPos :: "'p \<Rightarrow> real \<Rightarrow> Vector"
  findTrajectoryFastEndSpeed ::
    "Vector \<Rightarrow> Vector \<Rightarrow> Vector \<Rightarrow> real \<Rightarrow> real \<Rightarrow> real \<Rightarrow> bool \<Rightarrow> 'p"
  findTrajectoryExactEndSpeedP ::
    "Vector \<Rightarrow> Vector \<Rightarrow> Vector \<Rightarrow> real \<Rightarrow> real \<Rightarrow> real \<Rightarrow> 'p"
  calculateTrajectoryFastEndSpeed ::
    "Vector \<Rightarrow> Vector \<Rightarrow> real \<Rightarrow> real \<Rightarrow> real \<Rightarrow> real \<Rightarrow> 'p"
  calculateTrajectoryExactEndSpeed ::
    "Vector \<Rightarrow> Vector \<Rightarrow> real \<Rightarrow> real \<Rightarrow> real \<Rightarrow> real \<Rightarrow> 'p"
  isInputValidFastEndSpeed :: "Vector \<Rightarrow> Vector \<Rightarrow> real \<Rightarrow> real \<Rightarrow> bool"
  uniformInt :: "'r \<Rightarrow> nat \<times> 'r"
  uniformFloat :: "'r \<Rightarrow> real \<Rightarrow> real \<Rightarrow> real \<times> 'r"

subsection \<open>Obstacle tests\<close>

definition pointInPlayfield :: "'r TrajectoryPath \<Rightarrow> Vector \<Rightarrow> real \<Rightarrow> bool" where
  "pointInPlayfield st point radius =
     (if vec_x point - radius < vec_x (m_boundary_bottom_left st) \<or>
         vec_x point + radius > vec_x (m_boundary_top_right st) \<or>
         vec_y point - radius < vec_y (m_boundary_bottom_left st) \<or>
         vec_y point + radius > vec_y (m_boundary_top_right st)
      then False else True)"

definition collectObstacles :: "'r TrajectoryPath \<Rightarrow> 'r TrajectoryPath" where
  "collectObstacles st =
     st\<lparr>m_obstacles :=
          m_circleObstacles st @ m_rectObstacles st @ m_triangleObstacles st @ m_lineObstacles st\<rparr>"

definition isInStaticObstacle :: "'r TrajectoryPath \<Rightarrow> Vector \<Rightarrow> bool" where
  "isInStaticObstacle st point =
     (if \<not> pointInPlayfield st point (m_radius st) then True
      else list_ex (\<lambda>obstacle. obstacle_distance obstacle point < m_radius st) (m_obstacles st))"

definition isInMovingObstacle :: "'r TrajectoryPath \<Rightarrow> Vector \<Rightarrow> real \<Rightarrow> bool" where
  "isInMovingObstacle st point time =
     (if list_ex (\<lambda>o1. mc_intersects o1 point time) (m_movingCircles st) then True
      else list_ex (\<lambda>o2. ml_intersects o2 point time) (m_movingLines st))"

text \<open>The forty samples of a profile: sample \<open>i\<close> is taken at \<open>totalTime * i / 39\<close>.\<close>

definition samplePosition ::
  "('p, 'r) PlannerOps \<Rightarrow> 'p \<Rightarrow> real \<Rightarrow> real \<Rightarrow> Vector"
where
  "samplePosition ops profile slowDownTime time =
     (if slowDownTime > 0 then positionForTimeSlowDown ops profile time slowDownTime
      else positionForTime ops profile time)"

definition sampledTotalTime :: "('p, 'r) PlannerOps \<Rightarrow> 'p \<Rightarrow> real \<Rightarrow> real" where
  "sampledTotalTime ops profile slowDownTime =
     (if slowDownTime > 0 then timeWithSlowDown ops profile slowDownTime
      else profileTime ops profile)"

definition isTrajectoryInObstacle ::
  "('p, 'r) PlannerOps \<Rightarrow> 'r TrajectoryPath \<Rightarrow> 'p \<Rightarrow> real \<Rightarrow> real \<Rightarrow> Vector \<Rightarrow> bool"
where
  "isTrajectoryInObstacle ops st profile timeOffset slowDownTime startPos =
     (let totalTime = sampledTotalTime ops profile slowDownTime
      in list_ex
           (\<lambda>i. let time = totalTime * real i / 39;
                     pos = samplePosition ops profile slowDownTime time
                 in if isInStaticObstacle st (vadd pos startPos) then True
                    else isInMovingObstacle st (vadd pos startPos) (time + timeOffset))
           [0 ..< 40])"

text \<open>
  \<^verbatim>\<open>minObstacleDistance\<close> returns at the first distance that is not positive, walking
  the static obstacles, the moving circles and the moving lines in this order.
\<close>

fun minObstacleDistance_loop ::
  "('p, 'r) PlannerOps \<Rightarrow> 'r TrajectoryPath \<Rightarrow> 'p \<Rightarrow> real \<Rightarrow> real \<Rightarrow> Vector \<Rightarrow> real
   \<Rightarrow> real \<Rightarrow> nat list \<Rightarrow> real"
where
  "minObstacleDistance_loop ops st profile timeOffset slowDownTime startPos totalTime
     minDistance [] = minDistance"
| "minObstacleDistance_loop ops st profile timeOffset slowDownTime startPos totalTime
     minDistance (i # rest) =
     (let time = totalTime * real i / 39;
          pos = samplePosition ops profile slowDownTime time
      in if \<not> pointInPlayfield st (vadd pos startPos) (m_radius st) then - 1
         else
           (let ds = map (\<lambda>obstacle. obstacle_distance obstacle (vadd pos startPos) - m_radius st)
                       (m_obstacles st)
                   @ map (\<lambda>o1. mc_distance o1 (vadd pos startPos) (time + timeOffset))
                       (m_movingCircles st)
                   @ map (\<lambda>o2. ml_distance o2 (vadd pos startPos) (time + timeOffset))
                       (m_movingLines st)
            in case find (\<lambda>d. d \<le> 0) ds of
                 Some d \<Rightarrow> d
               | None \<Rightarrow>
                   minObstacleDistance_loop ops st profile timeOffset slowDownTime startPos
                     totalTime (fold min ds minDistance) rest))"

definition minObstacleDistance ::
  "('p, 'r) PlannerOps \<Rightarrow> 'r TrajectoryPath \<Rightarrow> 'p \<Rightarrow> real \<Rightarrow> real \<Rightarrow> Vector \<Rightarrow> real"
where
  "minObstacleDistance ops st profile timeOffset slowDownTime startPos =
     minObstacleDistance_loop ops st profile timeOffset slowDownTime startPos
       (sampledTotalTime ops profile slowDownTime) FLT_MAX [0 ..< 40]"


subsection \<open>Mid-point check and end-point test\<close>

definition checkMidPoint ::
  "('p, 'r) PlannerOps \<Rightarrow> Vector \<Rightarrow> real \<Rightarrow> real \<Rightarrow> 'r TrajectoryPath \<Rightarrow> bool \<times> 'r TrajectoryPath"
where
  "checkMidPoint ops midSpeed time angle st =
     (if \<not> isInputValidFastEndSpeed ops midSpeed (in_v1 st) time (ACCELERATION st) then (False, st)
      else
        (let secondPart = calculateTrajectoryFastEndSpeed ops midSpeed (in_v1 st) time angle
                            (ACCELERATION st) (MAX_SPEED st);
             slowDownTime = (if exponentialSlowDown st then TOTAL_SLOW_DOWN_TIME else 0);
             secondPartTime =
               (if exponentialSlowDown st then timeWithSlowDown ops secondPart TOTAL_SLOW_DOWN_TIME
                else profileTime ops secondPart);
             secondPartOffset =
               (if exponentialSlowDown st
                then positionForTimeSlowDown ops secondPart secondPartTime TOTAL_SLOW_DOWN_TIME
                else positionForTime ops secondPart secondPartTime)
         in if xless (bti_time (m_bestResultInfo st)) (Fin secondPartTime) then (False, st)
            else
              (let firstPartPosition = vsub (in_distance st) secondPartOffset;
                   firstPartSlowDownTime =
                     (if exponentialSlowDown st then max 0 (TOTAL_SLOW_DOWN_TIME - secondPartTime)
                      else 0);
                   firstPart = findTrajectoryExactEndSpeedP ops (in_v0 st) midSpeed firstPartPosition
                                 (ACCELERATION st) (MAX_SPEED st) firstPartSlowDownTime
               in if \<not> isValid ops firstPart then (False, st)
                  else
                    (let firstPartTime =
                           (if exponentialSlowDown st \<and> firstPartSlowDownTime > 0
                            then timeWithSlowDown ops firstPart firstPartSlowDownTime
                            else profileTime ops firstPart);
                         firstPartObstacleDist =
                           minObstacleDistance ops st firstPart 0 firstPartSlowDownTime (in_s0 st)
                     in if firstPartObstacleDist \<le> 0 then (False, st)
                        else
                          (let secondPartObstacleDist =
                                 minObstacleDistance ops st secondPart firstPartTime slowDownTime
                                   (vsub (in_s1 st) secondPartOffset)
                           in if secondPartObstacleDist \<le> 0 then (False, st)
                              else
                                (let minObstacleDist = min firstPartObstacleDist secondPartObstacleDist;
                                     obstacleDistExtraTime =
                                       (if minObstacleDist < OBSTACLE_AVOIDANCE_RADIUS
                                        then OBSTACLE_AVOIDANCE_BONUS else 1);
                                     biasedTrajectoryTime =
                                       (firstPartTime + secondPartTime) * obstacleDistExtraTime
                                 in if xless (bti_time (m_bestResultInfo st)) (Fin biasedTrajectoryTime)
                                    then (False, st)
                                    else
                                      (let infoFirstPart =
                                             \<lparr>gi_time = inputTime ops firstPart,
                                              gi_angle = inputAngle ops firstPart,
                                              gi_slowDownTime = firstPartSlowDownTime,
                                              gi_v0 = in_v0 st,
                                              gi_v1 = midSpeed,
                                              gi_desiredDistance = firstPartPosition,
                                              gi_fastEndSpeed = False\<rparr>;
                                           infoSecondPart =
                                             \<lparr>gi_time = time,
                                              gi_angle = angle,
                                              gi_slowDownTime = slowDownTime,
                                              gi_v0 = midSpeed,
                                              gi_v1 = in_v1 st,
                                              gi_desiredDistance = Vector 0 0,
                                              gi_fastEndSpeed = True\<rparr>
                                       in (True,
                                           st\<lparr>m_bestResultInfo :=
                                                 \<lparr>bti_time = Fin biasedTrajectoryTime,
                                                  bti_centerTime = time,
                                                  bti_angle = angle,
                                                  bti_midSpeed = midSpeed,
                                                  bti_valid = True\<rparr>,
                                               m_generationInfo := [infoFirstPart, infoSecondPart]\<rparr>))))))))"

text \<open>
  The two coordinates of a random vector are drawn in the order in which they are written
  (C++ leaves the order of the two calls open).
\<close>

definition randomVector ::
  "('p, 'r) PlannerOps \<Rightarrow> real \<Rightarrow> real \<Rightarrow> real \<Rightarrow> real \<Rightarrow> 'r \<Rightarrow> Vector \<times> 'r"
where
  "randomVector ops lowX highX lowY highY rng =
     (let (x, rng1) = uniformFloat ops rng lowX highX;
          (y, rng2) = uniformFloat ops rng1 lowY highY
      in (Vector x y, rng2))"

definition randomPointInField ::
  "('p, 'r) PlannerOps \<Rightarrow> 'r TrajectoryPath \<Rightarrow> Vector \<times> 'r TrajectoryPath"
where
  "randomPointInField ops st =
     (let (p, rng) = randomVector ops (minX st) (vec_x (fieldSize st)) (minY st)
                       (vec_y (fieldSize st)) (m_rng st)
      in (p, st\<lparr>m_rng := rng\<rparr>))"

text \<open>
  \<^verbatim>\<open>randomSpeed\<close> draws until the speed lies in the disc of radius \<^verbatim>\<open>MAX_SPEED\<close>;
  \<open>None\<close> stands for a loop that never ends.
\<close>

partial_function (option) randomSpeed ::
  "('p, 'r) PlannerOps \<Rightarrow> real \<Rightarrow> real \<Rightarrow> 'r \<Rightarrow> (Vector \<times> 'r) option"
where
  "randomSpeed ops maxSpeed maxSpeedSquared rng =
     (case randomVector ops (- maxSpeed) maxSpeed (- maxSpeed) maxSpeed rng of
        (testSpeed, rng') \<Rightarrow>
          if lengthSquared testSpeed > maxSpeedSquared
          then randomSpeed ops maxSpeed maxSpeedSquared rng'
          else Some (testSpeed, rng'))"

definition testEndPoint ::
  "('p, 'r) PlannerOps \<Rightarrow> Vector \<Rightarrow> 'r TrajectoryPath \<Rightarrow> bool \<times> 'r TrajectoryPath"
where
  "testEndPoint ops endPoint st =
     (if xless (xadd (m_bestEndPointDistance st) (- (5 / 100)))
           (Fin (vdistance endPoint (in_distance st)))
      then (False, st)
      else
        (let direct = findTrajectoryExactEndSpeedP ops (in_v0 st) (Vector 0 0) endPoint
                        (ACCELERATION st) (MAX_SPEED st) 0
         in if \<not> isValid ops direct then (False, st)
            else if isTrajectoryInObstacle ops st direct 0 0 (in_s0 st) then (False, st)
            else
              (let info = \<lparr>gi_time = inputTime ops direct,
                           gi_angle = inputAngle ops direct,
                           gi_slowDownTime = 0,
                           gi_v0 = in_v0 st,
                           gi_v1 = Vector 0 0,
                           gi_desiredDistance = endPoint,
                           gi_fastEndSpeed = False\<rparr>
               in (True,
                   st\<lparr>m_bestEndPointDistance := Fin (vdistance endPoint (in_distance st)),
                       m_bestResultInfo := (m_bestResultInfo st)\<lparr>bti_valid := True\<rparr>,
                       m_bestEndPoint := endPoint,
                       m_generationInfo := [info]\<rparr>))))"

subsection \<open>Escaping obstacles\<close>

text \<open>
  \<^verbatim>\<open>trajectoryObstacleScore\<close>. The number of samples is
  \<^verbatim>\<open>int(totalTime / SAMPLING_INTERVAL) + 1\<close>; the loop state is the pair
  \<open>(currentBestObstaclePrio, currentBestObstacleTime)\<close>.
\<close>

definition SAMPLING_INTERVAL :: real where
  "SAMPLING_INTERVAL = 5 / 1000"

definition FIELD_BOUNDARY_PRIO :: int where
  "FIELD_BOUNDARY_PRIO = 1"

definition samplePriority :: "'r TrajectoryPath \<Rightarrow> Vector \<Rightarrow> real \<Rightarrow> int" where
  "samplePriority st pos time =
     (let p0 = (if \<not> pointInPlayfield st pos (m_radius st) then FIELD_BOUNDARY_PRIO else 0);
          p1 = fold (\<lambda>obstacle p.
                  if obstacle_prio obstacle > p \<and> obstacle_distance obstacle pos < m_radius st
                  then obstacle_prio obstacle else p) (m_obstacles st) p0;
          p2 = fold (\<lambda>o1 p. if mc_prio o1 > p \<and> mc_intersects o1 pos time then mc_prio o1 else p)
                 (m_movingCircles st) p1
      in fold (\<lambda>o2 p. if ml_prio o2 > p \<and> ml_intersects o2 pos time then ml_prio o2 else p)
           (m_movingLines st) p2)"

definition scoreStep ::
  "('p, 'r) PlannerOps \<Rightarrow> 'r TrajectoryPath \<Rightarrow> 'p \<Rightarrow> real \<Rightarrow> nat \<Rightarrow> nat \<Rightarrow> int \<times> real
   \<Rightarrow> int \<times> real"
where
  "scoreStep ops st speedProfile totalTime samples i best =
     (let time = (if i < samples - 1 then real i * SAMPLING_INTERVAL else totalTime);
          pos = vadd (positionForTime ops speedProfile time) (in_s0 st);
          obstaclePriority = samplePriority st pos time;
          best1 = (if obstaclePriority > fst best then (obstaclePriority, 0) else best)
      in if obstaclePriority = fst best1
         then (if i = samples - 1 then (fst best1, snd best1 + 10)
               else (fst best1, snd best1 + SAMPLING_INTERVAL))
         else best1)"

definition trajectoryObstacleScore ::
  "('p, 'r) PlannerOps \<Rightarrow> 'r TrajectoryPath \<Rightarrow> 'p \<Rightarrow> int \<times> real"
where
  "trajectoryObstacleScore ops st speedProfile =
     (let totalTime = profileTime ops speedProfile;
          samples = nat (toInt64 (totalTime / SAMPLING_INTERVAL) + 1)
      in fold (scoreStep ops st speedProfile totalTime samples) [0 ..< samples] (0, 0))"

text \<open>
  The loop of \<^verbatim>\<open>escapeObstacles\<close>, with the number of rounds left. Its state is the
  best score so far, \<open>(bestPrio, bestObstacleTime, bestTotalTime)\<close>, and the planner.
\<close>

fun escapeObstacles_loop ::
  "('p, 'r) PlannerOps \<Rightarrow> nat \<Rightarrow> int \<times> real \<times> real \<Rightarrow> 'r TrajectoryPath \<Rightarrow> 'r TrajectoryPath"
where
  "escapeObstacles_loop ops 0 best st = st"
| "escapeObstacles_loop ops (Suc n) (bestPrio, bestObstacleTime, bestTotalTime) st =
     (if bestPrio = 0 then st
      else
        (let (r, rng0) = uniformInt ops (m_rng st);
             (time, angle, rng2) =
               (if r mod 2 = 0
                then (let (t, rng1) = uniformFloat ops rng0 (4 / 10) 5;
                          (a, rng2) = uniformFloat ops rng1 0 (2 * pi)
                      in (t, a, rng2))
                else (let (dt, rng1) = uniformFloat ops rng0 (- (1 / 10)) (1 / 10);
                          (da, rng2) = uniformFloat ops rng1 (- (1 / 10)) (1 / 10)
                      in (max (5 / 100) (m_bestEscapingTime st + dt),
                          m_bestEscapingAngle st + da, rng2)));
             st1 = st\<lparr>m_rng := rng2\<rparr>;
             p = calculateTrajectoryExactEndSpeed ops (in_v0 st1) (Vector 0 0) time angle
                   (ACCELERATION st1) (MAX_SPEED st1)
         in if isValid ops p
            then
              (let result = trajectoryObstacleScore ops st1 p;
                   trajectoryTime = profileTime ops p
               in if fst result < bestPrio
                     \<or> (fst result = bestPrio \<and> snd result < bestObstacleTime)
                     \<or> (fst result = bestPrio \<and> snd result = bestObstacleTime
                         \<and> trajectoryTime < bestTotalTime)
                  then escapeObstacles_loop ops n (fst result, snd result, trajectoryTime)
                         (st1\<lparr>m_bestEscapingTime := time, m_bestEscapingAngle := angle\<rparr>)
                  else escapeObstacles_loop ops n (bestPrio, bestObstacleTime, bestTotalTime) st1)
            else escapeObstacles_loop ops n (bestPrio, bestObstacleTime, bestTotalTime) st1))"

definition escapeObstacles :: "('p, 'r) PlannerOps \<Rightarrow> 'r TrajectoryPath \<Rightarrow> 'r TrajectoryPath" where
  "escapeObstacles ops st =
     (let p = calculateTrajectoryExactEndSpeed ops (in_v0 st) (Vector 0 0)
                (m_bestEscapingTime st) (m_bestEscapingAngle st) (ACCELERATION st) (MAX_SPEED st);
          lastResult = trajectoryObstacleScore ops st p;
          st1 = escapeObstacles_loop ops 100 (fst lastResult, snd lastResult, profileTime ops p) st;
          info = \<lparr>gi_time = m_bestEscapingTime st1,
                  gi_angle = m_bestEscapingAngle st1,
                  gi_slowDownTime = 0,
                  gi_v0 = in_v0 st1,
                  gi_v1 = Vector 0 0,
                  gi_desiredDistance = Vector 0 0,
                  gi_fastEndSpeed = False\<rparr>
      in st1\<lparr>m_generationInfo := [info]\<rparr>)"

subsection \<open>End point in an obstacle\<close>

fun findPathEndInObstacle_loop ::
  "('p, 'r) PlannerOps \<Rightarrow> nat \<Rightarrow> nat \<Rightarrow> 'r TrajectoryPath \<Rightarrow> 'r TrajectoryPath"
where
  "findPathEndInObstacle_loop ops i 0 st = st"
| "findPathEndInObstacle_loop ops i (Suc n) st =
     (let st0 = (if i = 200 div 3 \<and> \<not> bti_valid (m_bestResultInfo st)
                 then st\<lparr>m_bestEndPointDistance := Infty\<rparr> else st);
          (r, rng0) = uniformInt ops (m_rng st0);
          randVal = r mod 1024;
          st1 = st0\<lparr>m_rng := rng0\<rparr>;
          (testPoint, st2) =
            (if randVal < 300
             then (let testRadius = xmin (m_bestEndPointDistance st1) (3 / 10);
                       (d, rng) = randomVector ops (- testRadius) testRadius
                                    (- testRadius) testRadius (m_rng st1)
                   in (vadd (in_distance st1) d, st1\<lparr>m_rng := rng\<rparr>))
             else if randVal < 800 \<or> xless (m_bestEndPointDistance st1) (Fin (3 / 10))
             then (let testRadius = xmin (m_bestEndPointDistance st1) (3 / 10);
                       (d, rng) = randomVector ops (- testRadius) testRadius
                                    (- testRadius) testRadius (m_rng st1)
                   in (vadd (m_bestEndPoint st1) d, st1\<lparr>m_rng := rng\<rparr>))
             else randomPointInField ops st1)
      in findPathEndInObstacle_loop ops (Suc i) n (snd (testEndPoint ops testPoint st2)))"

definition findPathEndInObstacle ::
  "('p, 'r) PlannerOps \<Rightarrow> 'r TrajectoryPath \<Rightarrow> 'r TrajectoryPath"
where
  "findPathEndInObstacle ops st =
     (let prevBestDistance = m_bestEndPointDistance st;
          st1 = st\<lparr>m_bestEndPointDistance := Infty,
                   m_bestResultInfo := (m_bestResultInfo st)\<lparr>bti_valid := False\<rparr>\<rparr>;
          (ok, st2) = testEndPoint ops (m_bestEndPoint st1) st1;
          st3 = (if \<not> ok then st2\<lparr>m_bestEndPointDistance := xmul prevBestDistance (13 / 10)\<rparr>
                 else st2);
          st4 = findPathEndInObstacle_loop ops 0 200 st3
      in if \<not> bti_valid (m_bestResultInfo st4) then escapeObstacles ops st4 else st4)"


subsection \<open>Searching a mid point\<close>

datatype SamplingMode = TOTAL_RANDOM | CURRENT_BEST | LAST_BEST

definition chooseSamplingMode ::
  "('p, 'r) PlannerOps \<Rightarrow> BestTrajectoryInfo \<Rightarrow> nat \<Rightarrow> 'r TrajectoryPath
   \<Rightarrow> SamplingMode \<times> 'r TrajectoryPath"
where
  "chooseSamplingMode ops lastTrajectoryInfo i st =
     (if \<not> bti_valid (m_bestResultInfo st)
      then (if i < 20 then (LAST_BEST, st)
            else (let (r, rng) = uniformInt ops (m_rng st)
                  in (if r mod 2 = 0 then LAST_BEST else TOTAL_RANDOM, st\<lparr>m_rng := rng\<rparr>)))
      else
        (let (r, rng) = uniformInt ops (m_rng st);
             st1 = st\<lparr>m_rng := rng\<rparr>
         in if r mod 1024 < 150 then (TOTAL_RANDOM, st1)
            else if xless (bti_time (m_bestResultInfo st1))
                      (xadd (bti_time lastTrajectoryInfo) (5 / 100))
            then (CURRENT_BEST, st1)
            else (let (r2, rng2) = uniformInt ops (m_rng st1)
                  in (if r2 mod 2 = 0 then CURRENT_BEST else LAST_BEST, st1\<lparr>m_rng := rng2\<rparr>))))"

text \<open>
  \<^verbatim>\<open>while (info.midSpeed.lengthSquared() > MAX_SPEED_SQUARED) chosenMidSpeed *= 0.9f\<close>:
  the condition reads \<open>info.midSpeed\<close>, which the body does not change.
\<close>

partial_function (option) scaleMidSpeed :: "Vector \<Rightarrow> real \<Rightarrow> Vector \<Rightarrow> Vector option" where
  "scaleMidSpeed infoMidSpeed maxSpeedSquared chosenMidSpeed =
     (if lengthSquared infoMidSpeed > maxSpeedSquared
      then scaleMidSpeed infoMidSpeed maxSpeedSquared (vscale chosenMidSpeed (9 / 10))
      else Some chosenMidSpeed)"

definition SAMPLING_RADIUS :: real where
  "SAMPLING_RADIUS = 2 / 10"

partial_function (option) sampleAroundMidSpeed ::
  "('p, 'r) PlannerOps \<Rightarrow> Vector \<Rightarrow> real \<Rightarrow> 'r \<Rightarrow> (Vector \<times> 'r) option"
where
  "sampleAroundMidSpeed ops chosenMidSpeed maxSpeedSquared rng =
     (case randomVector ops (- SAMPLING_RADIUS) SAMPLING_RADIUS
             (- SAMPLING_RADIUS) SAMPLING_RADIUS rng of
        (d, rng') \<Rightarrow>
          if lengthSquared (vadd chosenMidSpeed d) \<ge> maxSpeedSquared
          then sampleAroundMidSpeed ops chosenMidSpeed maxSpeedSquared rng'
          else Some (vadd chosenMidSpeed d, rng'))"

text \<open>
  The upper bound of the sampled time in mode \<^verbatim>\<open>TOTAL_RANDOM\<close>. A valid best result has
  a finite time (only \<open>checkMidPoint\<close> makes it valid in this search); the bound for an
  infinite time is never used.
\<close>

fun randomMaxTime :: "BestTrajectoryInfo \<Rightarrow> real" where
  "randomMaxTime info =
     (if bti_valid info
      then (case bti_time info of Fin t \<Rightarrow> max (1 / 100) (t - 1 / 10) | Infty \<Rightarrow> FLT_MAX)
      else 5)"

text \<open>One sample \<open>(speed, angle, time)\<close> of the search, with the planner after the draws.\<close>

definition sampleMidPoint ::
  "('p, 'r) PlannerOps \<Rightarrow> BestTrajectoryInfo \<Rightarrow> SamplingMode \<Rightarrow> 'r TrajectoryPath
   \<Rightarrow> (Vector \<times> real \<times> real \<times> 'r TrajectoryPath) option"
where
  "sampleMidPoint ops lastTrajectoryInfo mode st =
     (if mode = TOTAL_RANDOM
      then
        (case randomSpeed ops (MAX_SPEED st) (MAX_SPEED_SQUARED st) (m_rng st) of
           None \<Rightarrow> None
         | Some (speed, rng1) \<Rightarrow>
             (let (angle, rng2) = uniformFloat ops rng1 0 (2 * pi);
                  maxTime = randomMaxTime (m_bestResultInfo st);
                  (time, rng3) = uniformFloat ops rng2 0 maxTime
              in Some (speed, angle, time, st\<lparr>m_rng := rng3\<rparr>)))
      else
        (let info = (if mode = CURRENT_BEST then m_bestResultInfo st else lastTrajectoryInfo)
         in case scaleMidSpeed (bti_midSpeed info) (MAX_SPEED_SQUARED st) (bti_midSpeed info) of
              None \<Rightarrow> None
            | Some chosenMidSpeed \<Rightarrow>
                (case sampleAroundMidSpeed ops chosenMidSpeed (MAX_SPEED_SQUARED st) (m_rng st) of
                   None \<Rightarrow> None
                 | Some (speed, rng1) \<Rightarrow>
                     (let (da, rng2) = uniformFloat ops rng1 (- (1 / 10)) (1 / 10);
                          (dt, rng3) = uniformFloat ops rng2 (- (1 / 10)) (1 / 10)
                      in Some (speed, bti_angle info + da, bti_centerTime info + dt,
                               st\<lparr>m_rng := rng3\<rparr>)))))"

text \<open>The normal search: round \<open>i\<close>, with the number of rounds left.\<close>

fun normalSearch_loop ::
  "('p, 'r) PlannerOps \<Rightarrow> BestTrajectoryInfo \<Rightarrow> nat \<Rightarrow> nat \<Rightarrow> 'r TrajectoryPath
   \<Rightarrow> 'r TrajectoryPath option"
where
  "normalSearch_loop ops lastTrajectoryInfo i 0 st = Some st"
| "normalSearch_loop ops lastTrajectoryInfo i (Suc n) st =
     (case chooseSamplingMode ops lastTrajectoryInfo i st of
        (mode, st1) \<Rightarrow>
          (case sampleMidPoint ops lastTrajectoryInfo mode st1 of
             None \<Rightarrow> None
           | Some (speed, angle, time, st2) \<Rightarrow>
               normalSearch_loop ops lastTrajectoryInfo (Suc i) n
                 (snd (checkMidPoint ops speed time angle st2))))"

text \<open>
  The direct trajectory of \<^verbatim>\<open>findPathAlphaT\<close>, and the test that accepts it.
\<close>

definition directSlowDownTime :: "'r TrajectoryPath \<Rightarrow> real" where
  "directSlowDownTime st = (if exponentialSlowDown st then TOTAL_SLOW_DOWN_TIME else 0)"

definition directTrajectory :: "('p, 'r) PlannerOps \<Rightarrow> 'r TrajectoryPath \<Rightarrow> 'p" where
  "directTrajectory ops st =
     (let useHighPrecision = (vlength (in_distance st) < 1 / 10 \<and> in_v1 st = Vector 0 0
                              \<and> vlength (in_v0 st) < 2 / 10)
      in findTrajectoryFastEndSpeed ops (in_v0 st) (in_v1 st) (in_distance st)
           (ACCELERATION st) (MAX_SPEED st) (directSlowDownTime st) useHighPrecision)"

definition directAccepted :: "('p, 'r) PlannerOps \<Rightarrow> 'r TrajectoryPath \<Rightarrow> bool" where
  "directAccepted ops st =
     (isValid ops (directTrajectory ops st)
      \<and> minObstacleDistance ops st (directTrajectory ops st) 0 (directSlowDownTime st) (in_s0 st)
          > OBSTACLE_AVOIDANCE_RADIUS)"

definition directInfo :: "('p, 'r) PlannerOps \<Rightarrow> 'r TrajectoryPath \<Rightarrow> TrajectoryGenerationInfo" where
  "directInfo ops st =
     \<lparr>gi_time = inputTime ops (directTrajectory ops st),
      gi_angle = inputAngle ops (directTrajectory ops st),
      gi_slowDownTime = directSlowDownTime st,
      gi_v0 = in_v0 st,
      gi_v1 = in_v1 st,
      gi_desiredDistance = in_distance st,
      gi_fastEndSpeed = True\<rparr>"

text \<open>
  The part of \<^verbatim>\<open>findPathAlphaT\<close> that follows the check of the trajectory from the last
  iteration: start in an obstacle, end in an obstacle, normal search.
\<close>

definition findPathAlphaT_search ::
  "('p, 'r) PlannerOps \<Rightarrow> BestTrajectoryInfo \<Rightarrow> 'r TrajectoryPath \<Rightarrow> 'r TrajectoryPath option"
where
  "findPathAlphaT_search ops lastTrajectoryInfo st =
     (if isInStaticObstacle st (in_s0 st) \<or> isInMovingObstacle st (in_s0 st) 0
      then Some (escapeObstacles ops st)
      else if isInStaticObstacle st (in_s1 st)
      then Some (findPathEndInObstacle ops st)
      else
        (case normalSearch_loop ops lastTrajectoryInfo 0 100 st of
           None \<Rightarrow> None
         | Some st1 \<Rightarrow>
             if \<not> bti_valid (m_bestResultInfo st1) then Some (escapeObstacles ops st1)
             else Some st1))"

definition findPathAlphaT ::
  "('p, 'r) PlannerOps \<Rightarrow> 'r TrajectoryPath \<Rightarrow> 'r TrajectoryPath option"
where
  "findPathAlphaT ops st =
     (let st1 = (collectObstacles st)\<lparr>m_generationInfo := []\<rparr>
      in if directAccepted ops st1
         then Some (st1\<lparr>m_generationInfo := [directInfo ops st1]\<rparr>)
         else
           (let lastTrajectoryInfo = m_bestResultInfo st1;
                st2 = st1\<lparr>m_bestResultInfo :=
                            (m_bestResultInfo st1)\<lparr>bti_time := Infty, bti_valid := False\<rparr>\<rparr>;
                st3 = (if bti_valid (m_bestResultInfo st2)
                       then snd (checkMidPoint ops (bti_midSpeed (m_bestResultInfo st2))
                                   (bti_centerTime (m_bestResultInfo st2))
                                   (bti_angle (m_bestResultInfo st2)) st2)
                       else st2)
            in findPathAlphaT_search ops lastTrajectoryInfo st3))"

text \<open>
  \<^verbatim>\<open>findPathAlphaT\<close> with the check of the trajectory from the last iteration removed,
  for comparison.
\<close>

definition findPathAlphaT_noRecheck ::
  "('p, 'r) PlannerOps \<Rightarrow> 'r TrajectoryPath \<Rightarrow> 'r TrajectoryPath option"
where
  "findPathAlphaT_noRecheck ops st =
     (let st1 = (collectObstacles st)\<lparr>m_generationInfo := []\<rparr>
      in if directAccepted ops st1
         then Some (st1\<lparr>m_generationInfo := [directInfo ops st1]\<rparr>)
         else
           (let lastTrajectoryInfo = m_bestResultInfo st1;
                st2 = st1\<lparr>m_bestResultInfo :=
                            (m_bestResultInfo st1)\<lparr>bti_time := Infty, bti_valid := False\<rparr>\<rparr>
            in findPathAlphaT_search ops lastTrajectoryInfo st2))"

subsection \<open>The result path\<close>

text \<open>
  The scale of one axis in \<^verbatim>\<open>getResultPath\<close>: the quotient clamped to [0.9, 1.1]. A
  division by (positive) zero gives an infinity or NaN, which the clamp turns into 1.1 for
  a positive numerator and into 0.9 otherwise.
\<close>

definition axisScale :: "real \<Rightarrow> real \<Rightarrow> real" where
  "axisScale desired actual =
     (if actual = 0 then (if desired > 0 then 11 / 10 else 9 / 10)
      else min (11 / 10) (max (9 / 10) (desired / actual)))"

definition infoTrajectory :: "('p, 'r) PlannerOps \<Rightarrow> 'r TrajectoryPath \<Rightarrow> TrajectoryGenerationInfo \<Rightarrow> 'p" where
  "infoTrajectory ops st info =
     (if gi_fastEndSpeed info
      then calculateTrajectoryFastEndSpeed ops (gi_v0 info) (gi_v1 info) (gi_time info)
             (gi_angle info) (ACCELERATION st) (MAX_SPEED st)
      else calculateTrajectoryExactEndSpeed ops (gi_v0 info) (gi_v1 info) (gi_time info)
             (gi_angle info) (ACCELERATION st) (MAX_SPEED st))"

definition infoPoints ::
  "('p, 'r) PlannerOps \<Rightarrow> 'r TrajectoryPath \<Rightarrow> Vector \<Rightarrow> real \<Rightarrow> TrajectoryGenerationInfo
   \<Rightarrow> Point list"
where
  "infoPoints ops st startPos timeSum info =
     (let trajectory = infoTrajectory ops st info;
          totalTime = (if gi_slowDownTime info = 0 then profileTime ops trajectory
                       else timeWithSlowDown ops trajectory (gi_slowDownTime info));
          (xScale, yScale) =
            (if gi_desiredDistance info \<noteq> Vector 0 0
             then (let endPos = (if gi_slowDownTime info = 0
                                 then positionForTime ops trajectory (totalTime + 1)
                                 else calculateSlowDownPos ops trajectory (gi_slowDownTime info))
                   in (axisScale (vec_x (gi_desiredDistance info)) (vec_x endPos),
                       axisScale (vec_y (gi_desiredDistance info)) (vec_y endPos)))
             else (1, 1))
      in map (\<lambda>i. let t = totalTime * real i / 39;
                       position = (if gi_slowDownTime info = 0
                                   then positionForTime ops trajectory t
                                   else positionForTimeSlowDown ops trajectory t
                                          (gi_slowDownTime info));
                       speed = (if gi_slowDownTime info = 0 then speedForTime ops trajectory t
                                else speedForTimeSlowDown ops trajectory t (gi_slowDownTime info))
                   in \<lparr>pt_pos = vadd startPos
                                  (Vector (vec_x position * xScale) (vec_y position * yScale)),
                       pt_speed = speed,
                       pt_time = timeSum + t\<rparr>)
           [0 ..< 40])"

fun getResultPath_loop ::
  "('p, 'r) PlannerOps \<Rightarrow> 'r TrajectoryPath \<Rightarrow> Vector \<Rightarrow> real \<Rightarrow> TrajectoryGenerationInfo list
   \<Rightarrow> Point list"
where
  "getResultPath_loop ops st startPos timeSum [] = []"
| "getResultPath_loop ops st startPos timeSum (info # rest) =
     (let points = infoPoints ops st startPos timeSum info
      in points @ getResultPath_loop ops st (pt_pos (last points)) (pt_time (last points)) rest)"

definition getResultPath :: "('p, 'r) PlannerOps \<Rightarrow> 'r TrajectoryPath \<Rightarrow> Point list" where
  "getResultPath ops st = getResultPath_loop ops st (in_s0 st) 0 (m_generationInfo st)"

text \<open>
  \<^verbatim>\<open>calculateTrajectory\<close> stores the request in the planner (\<open>planRequest\<close>), runs
  \<^verbatim>\<open>findPathAlphaT\<close> and returns the points of the result. The model returns the points
  and the planner as the call leaves it; \<open>None\<close> when the call does not return.
\<close>

definition planRequest ::
  "Vector \<Rightarrow> Vector \<Rightarrow> Vector \<Rightarrow> Vector \<Rightarrow> real \<Rightarrow> real \<Rightarrow> 'r TrajectoryPath \<Rightarrow> 'r TrajectoryPath"
where
  "planRequest s0 v0 s1 v1 maxSpeed acceleration st =
     st\<lparr>in_v0 := v0,
        in_v1 := v1,
        in_distance := vsub s1 s0,
        in_s0 := s0,
        in_s1 := s1,
        exponentialSlowDown := (v1 = Vector 0 0),
        MAX_SPEED := maxSpeed,
        MAX_SPEED_SQUARED := maxSpeed * maxSpeed,
        ACCELERATION := acceleration\<rparr>"

definition calculateTrajectory ::
  "('p, 'r) PlannerOps \<Rightarrow> Vector \<Rightarrow> Vector \<Rightarrow> Vector \<Rightarrow> Vector \<Rightarrow> real \<Rightarrow> real
   \<Rightarrow> 'r TrajectoryPath \<Rightarrow> (Point list \<times> 'r TrajectoryPath) option"
where
  "calculateTrajectory ops s0 v0 s1 v1 maxSpeed acceleration st =
     (case findPathAlphaT ops (planRequest s0 v0 s1 v1 maxSpeed acceleration st) of
        None \<Rightarrow> None
      | Some st2 \<Rightarrow> Some (getResultPath ops st2, st2))"

text \<open>
  What the search keeps true of the recorded generation entries, for a planner whose
  slowdown flag is \<open>e\<close> and whose end speed is \<open>w\<close>: an entry built with fast end speed
  carries the slowdown time of the flag (0.3 s or 0), any other entry carries a slowdown
  only if the flag is set; the last entry carries 0.3 s if the flag is set and the entry
  was built with fast end speed, and 0 otherwise; and a valid best result comes with at
  least one entry.
\<close>

definition slowDownAsFlag :: "bool \<Rightarrow> TrajectoryGenerationInfo \<Rightarrow> bool" where
  "slowDownAsFlag e info =
     (if gi_fastEndSpeed info
      then gi_slowDownTime info = (if e then TOTAL_SLOW_DOWN_TIME else 0)
      else (e \<or> gi_slowDownTime info = 0))"

definition tailSlowDown :: "bool \<Rightarrow> TrajectoryGenerationInfo list \<Rightarrow> bool" where
  "tailSlowDown e infos =
     (gi_slowDownTime (last infos)
        = (if e \<and> gi_fastEndSpeed (last infos) then TOTAL_SLOW_DOWN_TIME else 0))"

definition searchInvariant :: "bool \<Rightarrow> Vector \<Rightarrow> 'r TrajectoryPath \<Rightarrow> bool" where
  "searchInvariant e w st =
     (exponentialSlowDown st = e \<and> in_v1 st = w
      \<and> list_all (slowDownAsFlag e) (m_generationInfo st)
      \<and> (if m_generationInfo st = [] then \<not> bti_valid (m_bestResultInfo st)
         else tailSlowDown e (m_generationInfo st)))"

subsection \<open>A planner for the examples\<close>

text \<open>
  Modelled from the spec: the revision of \<^verbatim>\<open>SpeedProfile\<close> and
  \<^verbatim>\<open>AlphaTimeTrajectory\<close> that the planner is written against, and the class
  \<^verbatim>\<open>RNG\<close>, are missing from the sources. The examples run the planner on stand-ins: a
  profile carries the time and angle it was generated from and moves on a straight line
  to its end position at constant speed; the search for a position always finds a valid
  profile that ends at the position, so that a direct trajectory is rejected by obstacles
  only; the random numbers come from a linear congruential generator. The planner starts
  with the initial values of trajectorypath.h in a field of 10 m by 10 m without
  obstacles.
\<close>

record ExampleProfile =
  ep_valid :: bool
  ep_inputTime :: real
  ep_inputAngle :: real
  ep_duration :: real
  ep_target :: Vector

definition examplePosition :: "ExampleProfile \<Rightarrow> real \<Rightarrow> real \<Rightarrow> Vector" where
  "examplePosition p duration t =
     (if duration \<le> 0 \<or> t \<ge> duration then ep_target p
      else vscale (ep_target p) (t / duration))"

definition exampleSpeed :: "ExampleProfile \<Rightarrow> real \<Rightarrow> real \<Rightarrow> Vector" where
  "exampleSpeed p duration t =
     (if duration \<le> 0 \<or> t \<ge> duration then Vector 0 0
      else vscale (ep_target p) (1 / duration))"

definition exampleSearch :: "Vector \<Rightarrow> ExampleProfile" where
  "exampleSearch position =
     \<lparr>ep_valid = True, ep_inputTime = 1, ep_inputAngle = 0,
      ep_duration = 1, ep_target = position\<rparr>"

definition exampleGenerate :: "real \<Rightarrow> real \<Rightarrow> ExampleProfile" where
  "exampleGenerate time angle =
     \<lparr>ep_valid = True, ep_inputTime = time, ep_inputAngle = angle,
      ep_duration = time, ep_target = Vector (time * sin angle) (time * cos angle)\<rparr>"

definition exampleNext :: "nat \<Rightarrow> nat" where
  "exampleNext rng = (rng * 1103515245 + 12345) mod 4294967296"

definition exampleOps :: "(ExampleProfile, nat) PlannerOps" where
  "exampleOps =
     \<lparr>isValid = ep_valid,
      inputTime = ep_inputTime,
      inputAngle = ep_inputAngle,
      profileTime = ep_duration,
      timeWithSlowDown = (\<lambda>p slowDown. ep_duration p + slowDown),
      positionForTime = (\<lambda>p t. examplePosition p (ep_duration p) t),
      positionForTimeSlowDown = (\<lambda>p t slowDown. examplePosition p (ep_duration p + slowDown) t),
      speedForTime = (\<lambda>p t. exampleSpeed p (ep_duration p) t),
      speedForTimeSlowDown = (\<lambda>p t slowDown. exampleSpeed p (ep_duration p + slowDown) t),
      calculateSlowDownPos = (\<lambda>p slowDown. ep_target p),
      findTrajectoryFastEndSpeed =
        (\<lambda>v0 v1 position acc vMax slowDown highPrecision. exampleSearch position),
      findTrajectoryExactEndSpeedP =
        (\<lambda>v0 v1 position acc vMax slowDown. exampleSearch position),
      calculateTrajectoryFastEndSpeed = (\<lambda>v0 v1 time angle acc vMax. exampleGenerate time angle),
      calculateTrajectoryExactEndSpeed = (\<lambda>v0 v1 time angle acc vMax. exampleGenerate time angle),
      isInputValidFastEndSpeed = (\<lambda>v0 v1 time acc. time \<ge> 0),
      uniformInt = (\<lambda>rng. (rng, exampleNext rng)),
      uniformFloat = (\<lambda>rng low high.
         (low + (high - low) * real (rng mod 1000) / 1000, exampleNext rng))\<rparr>"

definition examplePlanner :: "nat TrajectoryPath" where
  "examplePlanner =
     \<lparr>m_rng = 1,
      m_radius = 9 / 100,
      m_boundary_bottom_left = Vector (- 5) (- 5),
      m_boundary_top_right = Vector 5 5,
      m_circleObstacles = [],
      m_rectObstacles = [],
      m_triangleObstacles = [],
      m_lineObstacles = [],
      m_obstacles = [],
      minX = - 5,
      minY = - 5,
      fieldSize = Vector 10 10,
      in_v0 = Vector 0 0,
      in_v1 = Vector 0 0,
      in_distance = Vector 0 0,
      in_s0 = Vector 0 0,
      in_s1 = Vector 0 0,
      exponentialSlowDown = False,
      m_movingCircles = [],
      m_movingLines = [],
      m_bestResultInfo = \<lparr>bti_time = Fin 0, bti_centerTime = 0, bti_angle = 0,
                          bti_midSpeed = Vector 0 0, bti_valid = False\<rparr>,
      m_generationInfo = [],
      m_bestEndPoint = Vector 0 0,
      m_bestEndPointDistance = Fin 0,
      m_bestEscapingTime = 2,
      m_bestEscapingAngle = 0,
      MAX_SPEED = 35 / 10,
      MAX_SPEED_SQUARED = 9,
      ACCELERATION = 3\<rparr>"

text \<open>
  The planner with a round obstacle of radius 0.5 m at the origin, and the same planner
  after a request at maximum speed 3.5 m/s that ended with a mid speed of (2, 0).
\<close>

definition plannerWithObstacle :: "nat TrajectoryPath" where
  "plannerWithObstacle =
     examplePlanner\<lparr>m_circleObstacles := [Circle (Vector 0 0) (1 / 2) 50]\<rparr>"

definition plannerAfterFastRequest :: "nat TrajectoryPath" where
  "plannerAfterFastRequest =
     plannerWithObstacle\<lparr>m_bestResultInfo :=
       \<lparr>bti_time = Fin 2, bti_centerTime = 1 / 2, bti_angle = 1,
        bti_midSpeed = Vector 2 0, bti_valid = True\<rparr>\<rparr>"

section \<open>Results\<close>

subsection \<open>Coordinate conversion\<close>

text \<open>
  Claim C8. The vision/field conversions are mutually inverse: for every point \<open>p\<close> in
  field coordinates \<open>fromVision (toVision p) = p\<close>, exactly, in real arithmetic, where
  \<open>toVision\<close> maps \<open>(x, y)\<close> to \<open>(y * 1000, - x * 1000)\<close> and \<open>fromVision\<close> maps
  \<open>(vx, vy)\<close> to \<open>(- vy / 1000, vx / 1000)\<close>.
\<close>

theorem fromVision_toVision:
  "fromVision (toVision p) = p
   \<and> toVision (Vector x y) = Vector (y * 1000) (- x * 1000)
   \<and> fromVision (Vector vx vy) = Vector (- vy / 1000) (vx / 1000)"
  by (cases p) (simp add: fromVision_def toVision_def)

subsection \<open>Removing outdated filters\<close>

text \<open>
  A filter that is not the last of its list is always examined while the list holds at
  least two filters, so its limit is \<open>maxTime\<close>.
\<close>

lemma invalidate_loop_front:
  "invalidate_loop lu fc kept (fs @ [f]) mt mtl now =
   invalidate_loop lu fc (kept @ filter (\<lambda>g. \<not> lu g + mt < now) fs) [f] mt mtl now"
  by (induction fs arbitrary: kept) simp_all

text \<open>
  Claim C2, as amended. During \<open>process now\<close> every robot-id list and the ball list lose
  exactly the filters with \<open>lastUpdate + limit < now\<close>. The limit of a filter is
  \<open>maxTime\<close> when the list holds more than one filter at the moment the filter is examined
  or the filter is immature (\<open>frameCounter < 5\<close>); it is \<open>maxTimeLast\<close> only for a mature
  filter that is alone in its list at that moment. Hence every filter but the last of a list
  has the limit \<open>maxTime\<close>, and the last one has it when an earlier filter survived or it is
  immature. The limits are (0.1 s, 1 s) for balls and (0.2 s, 1 s) for robots, in nanoseconds.
\<close>

theorem invalidate_limit:
  fixes fs :: "'f list" and ops :: "('b, 'r) FilterOps"
  shows
  "invalidate lu fc (fs @ [f]) maxTime maxTimeLast now =
     (let kept = filter (\<lambda>g. \<not> lu g + maxTime < now) fs;
          timeLimit = (if 0 < length kept \<or> fc f < 5 then maxTime else maxTimeLast)
      in if lu f + timeLimit < now then kept else kept @ [f])
   \<and> invalidate lu fc ([] :: 'f list) maxTime maxTimeLast now = []
   \<and> (m_visionPackets t = [] \<longrightarrow>
        m_ballFilter (process ops now t) =
          invalidate (\<lambda>b. bt_lastUpdate ops (snd b)) (\<lambda>b. bt_frameCounter ops (snd b))
            (m_ballFilter t) 100000000 1000000000 now
      \<and> m_robotFilterYellow (process ops now t) =
          map (\<lambda>(rid, l). (rid, invalidate (rf_lastUpdate ops) (rf_frameCounter ops) l
                                200000000 1000000000 now)) (m_robotFilterYellow t)
      \<and> m_robotFilterBlue (process ops now t) =
          map (\<lambda>(rid, l). (rid, invalidate (rf_lastUpdate ops) (rf_frameCounter ops) l
                                200000000 1000000000 now)) (m_robotFilterBlue t))"
  by (simp add: invalidate_def invalidate_loop_front minFrameCount_def Let_def
        process_def invalidateBall_def invalidateRobots_def)

theorem invalidate_limit_witness:
  "invalidate srf_lastUpdate srf_frameCounter
     ([\<lparr>srf_lastUpdate = 0, srf_frameCounter = 9, srf_pos = Vector 0 0\<rparr>]
      @ [\<lparr>srf_lastUpdate = 400000000, srf_frameCounter = 2, srf_pos = Vector 1 0\<rparr>])
     200000000 1000000000 500000000
   = [\<lparr>srf_lastUpdate = 400000000, srf_frameCounter = 2, srf_pos = Vector 1 0\<rparr>]
   \<and> m_visionPackets emptyTracker = []
   \<and> m_ballFilter (process specOps 500000000 emptyTracker) = []"
  using invalidate_limit
    [where lu = srf_lastUpdate and fc = srf_frameCounter and maxTime = 200000000
       and maxTimeLast = 1000000000 and now = 500000000
       and fs = "[\<lparr>srf_lastUpdate = 0, srf_frameCounter = 9, srf_pos = Vector 0 0\<rparr>]"
       and f = "\<lparr>srf_lastUpdate = 400000000, srf_frameCounter = 2, srf_pos = Vector 1 0\<rparr>"
       and t = emptyTracker and ops = specOps]
  by (simp add: emptyTracker_def invalidate_def)

text \<open>
  Claim C2 as stated fails: a sole immature robot filter last updated at 0 is examined at
  0.5 s. With the limit \<open>maxTimeLast\<close> = 1 s it would stay; the code gives it 0.2 s and
  removes it.
\<close>

theorem sole_immature_filter_counterexample:
  "m_robotFilterYellow
     (process specOps 500000000
        (emptyTracker\<lparr>m_robotFilterYellow :=
           [(3, [\<lparr>srf_lastUpdate = 0, srf_frameCounter = 0, srf_pos = Vector 0 0\<rparr>])]\<rparr>))
   = [(3, [])]
   \<and> \<not> ((0::int) + 1000000000 < 500000000)"
  by (simp add: process_def invalidateBall_def invalidateRobots_def invalidate_def
        minFrameCount_def emptyTracker_def specOps_def)

subsection \<open>Detections on a camera without calibration\<close>






subsection \<open>Moving obstacles\<close>

lemma sqrt_less_iff_sq: "0 \<le> y \<Longrightarrow> sqrt x < y \<longleftrightarrow> x < y * y"
  by (metis abs_of_nonneg real_sqrt_abs2 real_sqrt_less_iff)

text \<open>
  Outside the time window both kinds of obstacle answer "infinity" and false, and a moving
  circle with a non-negative radius answers both queries alike.
\<close>

lemma moving_obstacle_outside_window:
  "time < mc_startTime m \<or> time > mc_endTime m \<Longrightarrow>
     mc_distance m pos time = FLT_MAX \<and> \<not> mc_intersects m pos time"
  "time < ml_startTime l \<or> time > ml_endTime l \<Longrightarrow>
     ml_distance l pos time = FLT_MAX \<and> \<not> ml_intersects l pos time"
  by (auto simp: mc_distance_def mc_intersects_def ml_distance_def ml_intersects_def)

lemma moving_circle_consistent:
  "0 \<le> mc_radius m \<Longrightarrow> mc_startTime m \<le> time \<Longrightarrow> time \<le> mc_endTime m \<Longrightarrow>
   (mc_distance m pos time < 0) = mc_intersects m pos time"
  by (simp add: mc_distance_def mc_intersects_def Let_def vdistance_def sqrt_less_iff_sq)

text \<open>
  Claim C7 at a failing input. A line from (0, 0) to (1, 0) that moves with speed (0, 1)
  from time 1 to time 3, of width 0.1. At time 2 it lies on y = 1, so the point (0, 1) is on
  it: \<open>ml_intersects\<close> holds. \<open>ml_distance\<close> places the end points with the absolute time
  2 instead of the time since the start, on y = 2, and answers 0.9, which is not negative.
\<close>

theorem moving_line_distance_mismatch:
  "ml_intersects
     \<lparr>ml_startPos1 = Vector 0 0, ml_speed1 = Vector 0 1, ml_acc1 = Vector 0 0,
      ml_startPos2 = Vector 1 0, ml_speed2 = Vector 0 1, ml_acc2 = Vector 0 0,
      ml_startTime = 1, ml_endTime = 3, ml_width = 1 / 10, ml_prio = 1\<rparr> (Vector 0 1) 2
   \<and> ml_distance
     \<lparr>ml_startPos1 = Vector 0 0, ml_speed1 = Vector 0 1, ml_acc1 = Vector 0 0,
      ml_startPos2 = Vector 1 0, ml_speed2 = Vector 0 1, ml_acc2 = Vector 0 0,
      ml_startTime = 1, ml_endTime = 3, ml_width = 1 / 10, ml_prio = 1\<rparr> (Vector 0 1) 2 = 9 / 10"
  by (simp add: ml_intersects_def ml_distance_def lineSegmentDistance_def vadd_def vsub_def
        vscale_def vdot_def vdistance_def distanceSq_def lengthSquared_def)

subsection \<open>The closed-form stop of the exact-end-speed search\<close>

text \<open>
  Claim C5, as amended. \<open>findTrajectoryExactEndSpeed\<close> returns the closed-form profile
  (per axis the two points \<open>(v0, 0)\<close> and \<open>(0, |v0 / acc|)\<close>) exactly when \<open>v1 = (0, 0)\<close>,
  no component of \<open>v0\<close> or \<open>position\<close> is zero, the Euclidean length of the vector of the two
  per-axis accelerations lies strictly between \<open>a\<close> and \<open>1.2 * a\<close>, and the two signed stop
  times differ by less than 0.1 s; in every other case it goes on to the iterative search.
\<close>

theorem closed_form_stop:
  "findTrajectoryExactEndSpeed search v0 v1 position acc vMax slowDownTime highPrecision =
     (if v1 = Vector 0 0
         \<and> vec_x position \<noteq> 0 \<and> vec_y position \<noteq> 0 \<and> vec_x v0 \<noteq> 0 \<and> vec_y v0 \<noteq> 0
         \<and> acc < vlength (necessaryAcceleration v0 position)
         \<and> vlength (necessaryAcceleration v0 position) < acc * (12 / 10)
         \<and> \<bar>\<bar>vec_x v0\<bar> / vec_x (necessaryAcceleration v0 position)
              - \<bar>vec_y v0\<bar> / vec_y (necessaryAcceleration v0 position)\<bar> < 1 / 10
      then
        \<lparr>sp_valid = True,
         xProfile = \<lparr>sp_acc = vec_x (necessaryAcceleration v0 position), sp_counter = 2,
                     sp_profile = [(vec_x v0, 0),
                                   (0, \<bar>vec_x v0 / vec_x (necessaryAcceleration v0 position)\<bar>)]\<rparr>,
         yProfile = \<lparr>sp_acc = vec_y (necessaryAcceleration v0 position), sp_counter = 2,
                     sp_profile = [(vec_y v0, 0),
                                   (0, \<bar>vec_y v0 / vec_y (necessaryAcceleration v0 position)\<bar>)]\<rparr>\<rparr>
      else search v0 v1 position acc vMax slowDownTime highPrecision)"
proof -
  have nz: "vec_x position \<noteq> 0 \<Longrightarrow> vec_x v0 \<noteq> 0 \<Longrightarrow> vec_x (necessaryAcceleration v0 position) \<noteq> 0"
           "vec_y position \<noteq> 0 \<Longrightarrow> vec_y v0 \<noteq> 0 \<Longrightarrow> vec_y (necessaryAcceleration v0 position) \<noteq> 0"
    by (simp_all add: necessaryAcceleration_def)
  have z: "vec_x v0 = 0 \<Longrightarrow> vec_x (necessaryAcceleration v0 position) = 0"
          "vec_y v0 = 0 \<Longrightarrow> vec_y (necessaryAcceleration v0 position) = 0"
    by (simp_all add: necessaryAcceleration_def)
  show ?thesis
    using nz z
    by (auto simp: findTrajectoryExactEndSpeed_def closedFormStop_def Let_def
          MAX_ACCELERATION_FACTOR_def)
qed

theorem closed_form_stop_witness:
  "findTrajectoryExactEndSpeed (\<lambda>v0 v1 position acc vMax slowDownTime highPrecision.
       \<lparr>sp_valid = False, xProfile = \<lparr>sp_acc = 0, sp_counter = 0, sp_profile = []\<rparr>,
        yProfile = \<lparr>sp_acc = 0, sp_counter = 0, sp_profile = []\<rparr>\<rparr>)
     (Vector 3 4) (Vector 0 0) (Vector (3 / 2) 2) (9 / 2) (7 / 2) 0 False =
     \<lparr>sp_valid = True,
      xProfile = \<lparr>sp_acc = 3, sp_counter = 2, sp_profile = [(3, 0), (0, 1)]\<rparr>,
      yProfile = \<lparr>sp_acc = 4, sp_counter = 2, sp_profile = [(4, 0), (0, 1)]\<rparr>\<rparr>"
proof -
  have na: "necessaryAcceleration (Vector 3 4) (Vector (3 / 2) 2) = Vector 3 4"
    by (simp add: necessaryAcceleration_def)
  have len: "vlength (Vector 3 4) = 5"
  proof -
    have "sqrt 25 = (5::real)" by (rule real_sqrt_unique) simp_all
    then show ?thesis by (simp add: vlength_def lengthSquared_def)
  qed
  show ?thesis
    using closed_form_stop [where ?v1.0 = "Vector 0 0" and ?v0.0 = "Vector 3 4"
        and position = "Vector (3 / 2) 2" and acc = "9 / 2"
        and vMax = "7 / 2" and slowDownTime = 0 and highPrecision = False]
    by (simp add: na len)
qed

text \<open>
  Claim C5 as stated fails: from \<open>v0 = (1, 1)\<close> to the position (0.25, 0.25) each axis needs
  the deceleration 2, which lies within [a, 1.2 a] for \<open>a = 2\<close>, and both axes stop after
  0.5 s. The length of the acceleration vector is \<open>sqrt 8 > 2.4\<close>, so the closed form is not
  taken and the result is whatever the iterative search returns.
\<close>

theorem per_axis_acceleration_counterexample:
  "necessaryAcceleration (Vector 1 1) (Vector (1 / 4) (1 / 4)) = Vector 2 2
   \<and> (2::real) \<le> 2 \<and> (2::real) \<le> 12 / 10 * 2
   \<and> \<bar>\<bar>1\<bar> / 2 - \<bar>1\<bar> / (2::real)\<bar> < 1 / 10
   \<and> closedFormStop (Vector 1 1) (Vector (1 / 4) (1 / 4)) 2 = None
   \<and> findTrajectoryExactEndSpeed (\<lambda>v0 v1 position acc vMax slowDownTime highPrecision.
         \<lparr>sp_valid = False, xProfile = \<lparr>sp_acc = 0, sp_counter = 0, sp_profile = []\<rparr>,
          yProfile = \<lparr>sp_acc = 0, sp_counter = 0, sp_profile = []\<rparr>\<rparr>)
       (Vector 1 1) (Vector 0 0) (Vector (1 / 4) (1 / 4)) 2 (7 / 2) 0 False
     = \<lparr>sp_valid = False, xProfile = \<lparr>sp_acc = 0, sp_counter = 0, sp_profile = []\<rparr>,
          yProfile = \<lparr>sp_acc = 0, sp_counter = 0, sp_profile = []\<rparr>\<rparr>"
proof -
  have na: "necessaryAcceleration (Vector 1 1) (Vector (1 / 4) (1 / 4)) = Vector 2 2"
    by (simp add: necessaryAcceleration_def)
  have "(12 / 5 :: real) < sqrt 8"
    by (rule real_less_rsqrt) (simp add: power2_eq_square)
  then have len: "\<not> vlength (Vector 2 2) < 2 * (12 / 10)"
    by (simp add: vlength_def lengthSquared_def)
  have cf: "closedFormStop (Vector 1 1) (Vector (1 / 4) (1 / 4)) 2 = None"
    using len by (simp add: closedFormStop_def na MAX_ACCELERATION_FACTOR_def)
  show ?thesis
    by (simp add: na cf findTrajectoryExactEndSpeed_def)
qed

subsection \<open>Limiting a trajectory in time\<close>














subsection \<open>The reported ball state\<close>

text \<open>
  Claim C3, as amended. For every call to \<open>writeBallState\<close>, whether or not the past
  estimate lies inside a robot's body, the reported ball is the one the ground estimator
  wrote, the last reported position is its position, and the remembered ball offsets are
  left as they were: \<open>computeBallState\<close> returns before the collision rules.
\<close>

theorem writeBallState_reports_ground:
  "fst (writeBallState ops ball time robots f)
     = fst (gf_writeBallState ops (m_groundFilter f) ball time robots)
   \<and> m_lastReportedBallPos (snd (writeBallState ops ball time robots f))
     = Vector (p_x (fst (gf_writeBallState ops (m_groundFilter f) ball time robots)))
              (p_y (fst (gf_writeBallState ops (m_groundFilter f) ball time robots)))
   \<and> m_localBallOffset (snd (writeBallState ops ball time robots f)) = m_localBallOffset f
   \<and> m_insideRobotOffset (snd (writeBallState ops ball time robots f)) = m_insideRobotOffset f"
  by (simp add: writeBallState_def computeBallState_def Let_def split: prod.splits)

theorem writeBallState_reports_ground_witness:
  "fst (writeBallState specGroundOps \<lparr>p_x = 0, p_y = 0, v_x = 0, v_y = 0\<rparr> 1000000
          [robotAtOrigin] ballInsideRobot)
     = \<lparr>p_x = 2 / 100, p_y = 0, v_x = 1, v_y = 0\<rparr>"
  using writeBallState_reports_ground
    [where ops = specGroundOps and ball = "\<lparr>p_x = 0, p_y = 0, v_x = 0, v_y = 0\<rparr>"
       and time = 1000000 and robots = "[robotAtOrigin]" and f = ballInsideRobot]
  by (simp add: specGroundOps_def ballInsideRobot_def)

text \<open>
  Claim C3 as stated fails. The past estimate is the centre of a robot and moves with
  (1, 0) relative to it, so it lies inside the robot's body. The projection onto the hull
  along the relative speed is (-0.088, 0), and the statements behind the return would report
  it; \<open>writeBallState\<close> reports the ground estimate (0.02, 0).
\<close>

lemma sqrt_sq: "0 \<le> y \<Longrightarrow> x = y * y \<Longrightarrow> sqrt x = y"
  by (simp add: real_sqrt_unique power2_eq_square)

lemma hull_sqrts:
  "sqrt (4 / 625) = 2 / 25"
  "sqrt 1000000 = 1000"
  "sqrt (121 / 15625) = 11 / 125"
  "sqrt (484 / 15625) = 22 / 125"
  by (rule sqrt_sq; simp)+

theorem ball_inside_robot_counterexample:
  "fst (computeBallState specGroundOps \<lparr>p_x = 0, p_y = 0, v_x = 0, v_y = 0\<rparr> 1000000
          [robotAtOrigin] ballInsideRobot)
     = \<lparr>p_x = 2 / 100, p_y = 0, v_x = 1, v_y = 0\<rparr>
   \<and> fst (snd (computeBallState specGroundOps \<lparr>p_x = 0, p_y = 0, v_x = 0, v_y = 0\<rparr> 1000000
          [robotAtOrigin] ballInsideRobot))
     = \<lparr>p_x = 0, p_y = 0, v_x = 1, v_y = 0\<rparr>
   \<and> isInsideRobot (Vector 0 0) robotAtOrigin ROBOT_RADIUS
   \<and> projectOntoHull (Vector 0 0) (Vector 1 0) robotAtOrigin = Some (Vector (- (88 / 1000)) 0)
   \<and> fst (collisionRules \<lparr>p_x = 2 / 100, p_y = 0, v_x = 1, v_y = 0\<rparr>
             \<lparr>p_x = 0, p_y = 0, v_x = 1, v_y = 0\<rparr> 1000000 [robotAtOrigin] ballInsideRobot)
     = \<lparr>p_x = - (88 / 1000), p_y = 0, v_x = 1, v_y = 0\<rparr>
   \<and> fst (writeBallState specGroundOps \<lparr>p_x = 0, p_y = 0, v_x = 0, v_y = 0\<rparr> 1000000
          [robotAtOrigin] ballInsideRobot)
     = \<lparr>p_x = 2 / 100, p_y = 0, v_x = 1, v_y = 0\<rparr>"
proof -
  have inside: "isInsideRobot (Vector 0 0) robotAtOrigin ROBOT_RADIUS"
    by (simp add: isInsideRobot_def robotAtOrigin_def ROBOT_RADIUS_def vsub_def vlength_def
          lengthSquared_def normalized_def vscale_def vdot_def hull_sqrts)
  have close: "intersectLineSegmentRobot (Vector 0 0) (Vector (- 1000) 0) robotAtOrigin ROBOT_RADIUS 1
               = Some (Vector (- (88 / 1000)) 0)"
    by (simp add: intersectLineSegmentRobot_def intersectLineLine_def
          intersectLineSegmentCircle_def intersectLineCircle_def robotAtOrigin_def
          ROBOT_RADIUS_def DRIBBLER_WIDTH_def vsub_def vadd_def vlength_def lengthSquared_def
          perpendicular_def normalized_def vscale_def vdot_def hull_sqrts Let_def)
  have far: "intersectLineSegmentRobot (Vector 0 0) (Vector 1000 0) robotAtOrigin ROBOT_RADIUS 1
               = Some (Vector (8 / 100) 0)"
    by (simp add: intersectLineSegmentRobot_def intersectLineLine_def
          intersectLineSegmentCircle_def intersectLineCircle_def robotAtOrigin_def
          ROBOT_RADIUS_def DRIBBLER_WIDTH_def vsub_def vadd_def vlength_def lengthSquared_def
          perpendicular_def normalized_def vscale_def vdot_def hull_sqrts Let_def)
  have proj: "projectOntoHull (Vector 0 0) (Vector 1 0) robotAtOrigin = Some (Vector (- (88 / 1000)) 0)"
  proof -
    have sp: "ri_speed robotAtOrigin = Vector 0 0" by (simp add: robotAtOrigin_def)
    show ?thesis
      by (simp add: projectOntoHull_def sp isZeroVector_def vsub_def vneg_def vscale_def
            close far vlength_def lengthSquared_def hull_sqrts)
  qed
  have rules: "fst (collisionRules \<lparr>p_x = 2 / 100, p_y = 0, v_x = 1, v_y = 0\<rparr>
             \<lparr>p_x = 0, p_y = 0, v_x = 1, v_y = 0\<rparr> 1000000 [robotAtOrigin] ballInsideRobot)
     = \<lparr>p_x = - (88 / 1000), p_y = 0, v_x = 1, v_y = 0\<rparr>"
  proof -
    have f: "m_lastVisionTime ballInsideRobot = 0" "m_localBallOffset ballInsideRobot = None"
      "m_insideRobotOffset ballInsideRobot = None"
      by (simp_all add: ballInsideRobot_def)
    show ?thesis
      by (simp add: collisionRules_def f truncDiv_def RESET_SPEED_TIME_def
            ACTIVATE_DRIBBLING_TIME_def inside proj setBallData_def Let_def)
  qed
  have ground: "fst (computeBallState specGroundOps \<lparr>p_x = 0, p_y = 0, v_x = 0, v_y = 0\<rparr> 1000000
          [robotAtOrigin] ballInsideRobot) = \<lparr>p_x = 2 / 100, p_y = 0, v_x = 1, v_y = 0\<rparr>"
    "fst (snd (computeBallState specGroundOps \<lparr>p_x = 0, p_y = 0, v_x = 0, v_y = 0\<rparr> 1000000
          [robotAtOrigin] ballInsideRobot)) = \<lparr>p_x = 0, p_y = 0, v_x = 1, v_y = 0\<rparr>"
    "fst (writeBallState specGroundOps \<lparr>p_x = 0, p_y = 0, v_x = 0, v_y = 0\<rparr> 1000000
          [robotAtOrigin] ballInsideRobot) = \<lparr>p_x = 2 / 100, p_y = 0, v_x = 1, v_y = 0\<rparr>"
    by (simp_all add: writeBallState_def computeBallState_def specGroundOps_def ballInsideRobot_def)
  show ?thesis
    using inside proj rules ground by simp
qed


subsection \<open>The trajectory planner\<close>

text \<open>
  Claim C10. \<^verbatim>\<open>findPathAlphaT\<close> assigns \<open>false\<close> to \<^verbatim>\<open>m_bestResultInfo.valid\<close> right
  before the guard of the check of the trajectory from the last iteration, so the check
  never runs: for every planner state, random generator included, and every
  implementation of the profiles, \<^verbatim>\<open>findPathAlphaT\<close> gives the same result (the same
  planner state, or no return) as the function without that check.
\<close>

theorem findPathAlphaT_recheck_unreachable:
  "findPathAlphaT ops st = findPathAlphaT_noRecheck ops st"
  by (simp add: findPathAlphaT_def findPathAlphaT_noRecheck_def Let_def)

text \<open>
  The loop that scales the chosen mid speed returns only if its condition is false at
  entry.
\<close>

lemma scaleMidSpeed_returns:
  assumes "scaleMidSpeed m q c = Some r"
  shows "\<not> lengthSquared m > q"
proof (rule scaleMidSpeed.raw_induct[where P = "\<lambda>m q c r. \<not> lengthSquared m > q", OF _ assms])
  fix f m q c y
  assume IH: "\<And>m q c y. f m q c = Some y \<Longrightarrow> \<not> q < lengthSquared m"
    and step: "(if q < lengthSquared m then f m q (vscale c (9 / 10)) else Some c) = Some y"
  show "\<not> q < lengthSquared m"
  proof
    assume lt: "q < lengthSquared m"
    with step have "f m q (vscale c (9 / 10)) = Some y" by simp
    from IH[OF this] lt show False by simp
  qed
qed

lemma scaleMidSpeed_diverges:
  "lengthSquared infoMidSpeed > maxSpeedSquared \<Longrightarrow>
   scaleMidSpeed infoMidSpeed maxSpeedSquared chosen = None"
  using scaleMidSpeed_returns[of infoMidSpeed maxSpeedSquared chosen]
  by (cases "scaleMidSpeed infoMidSpeed maxSpeedSquared chosen") auto

lemma normalSearch_stuck:
  assumes "\<not> bti_valid (m_bestResultInfo st)"
    and "lengthSquared (bti_midSpeed lastTrajectoryInfo) > MAX_SPEED_SQUARED st"
  shows "normalSearch_loop ops lastTrajectoryInfo 0 (Suc n) st = None"
  using assms
  by (simp add: chooseSamplingMode_def sampleMidPoint_def scaleMidSpeed_diverges)

lemma obstacle_tests_bestResultInfo [simp]:
  "isInStaticObstacle (st\<lparr>m_bestResultInfo := b\<rparr>) p = isInStaticObstacle st p"
  "isInMovingObstacle (st\<lparr>m_bestResultInfo := b\<rparr>) p t = isInMovingObstacle st p t"
  by (simp_all add: isInStaticObstacle_def isInMovingObstacle_def pointInPlayfield_def)

text \<open>
  Claim C1, at the requests where the code fails it. Take a request whose direct
  trajectory is rejected and whose start and end points lie in no obstacle, made on a
  planner whose best result of the previous request has a mid speed above the maximum
  speed of this request. The normal search samples around the last best result in its
  first round, and the loop \<^verbatim>\<open>while (info.midSpeed.lengthSquared() > MAX_SPEED_SQUARED)\<close>
  never ends: \<^verbatim>\<open>calculateTrajectory\<close> does not return, so no trajectory is returned.
\<close>

theorem calculateTrajectory_stuck:
  fixes st :: "'r TrajectoryPath"
  defines "start \<equiv> \<lambda>s0 v0 s1 v1 maxSpeed acceleration.
      (collectObstacles (planRequest s0 v0 s1 v1 maxSpeed acceleration st))\<lparr>m_generationInfo := []\<rparr>"
  assumes rejected: "\<not> directAccepted ops (start s0 v0 s1 v1 maxSpeed acceleration)"
    and s0_free: "\<not> isInStaticObstacle (start s0 v0 s1 v1 maxSpeed acceleration) s0"
      "\<not> isInMovingObstacle (start s0 v0 s1 v1 maxSpeed acceleration) s0 0"
    and s1_free: "\<not> isInStaticObstacle (start s0 v0 s1 v1 maxSpeed acceleration) s1"
    and faster: "lengthSquared (bti_midSpeed (m_bestResultInfo st)) > maxSpeed * maxSpeed"
  shows "calculateTrajectory ops s0 v0 s1 v1 maxSpeed acceleration st = None"
proof -
  let ?st1 = "start s0 v0 s1 v1 maxSpeed acceleration"
  let ?st2 = "?st1\<lparr>m_bestResultInfo := (m_bestResultInfo ?st1)\<lparr>bti_time := Infty, bti_valid := False\<rparr>\<rparr>"
  have fields: "in_s0 ?st2 = s0" "in_s1 ?st2 = s1" "MAX_SPEED_SQUARED ?st2 = maxSpeed * maxSpeed"
    "m_bestResultInfo ?st1 = m_bestResultInfo st" "\<not> bti_valid (m_bestResultInfo ?st2)"
    by (simp_all add: start_def planRequest_def collectObstacles_def)
  have loop: "normalSearch_loop ops (m_bestResultInfo ?st1) 0 100 ?st2 = None"
    unfolding numeral_eq_Suc
    by (rule normalSearch_stuck)
       (use faster in \<open>simp_all add: start_def planRequest_def collectObstacles_def\<close>)
  have search: "findPathAlphaT_search ops (m_bestResultInfo ?st1) ?st2 = None"
    unfolding findPathAlphaT_search_def fields(1,2)
    using s0_free s1_free loop by simp
  have "findPathAlphaT ops (planRequest s0 v0 s1 v1 maxSpeed acceleration st) = None"
    using rejected search
    by (simp add: findPathAlphaT_def Let_def start_def)
  then show ?thesis by (simp add: calculateTrajectory_def)
qed

text \<open>
  The examples. \<^verbatim>\<open>minObstacleDistance\<close> returns a distance that is not positive as
  soon as one of its samples lies inside a static obstacle.
\<close>

lemma minObstacleDistance_loop_hit:
  assumes sample: "i \<in> set samples"
    and obstacle: "obstacle \<in> set (m_obstacles st)"
    and inside: "obstacle_distance obstacle
        (vadd (samplePosition ops profile slowDownTime (totalTime * real i / 39)) startPos)
        - m_radius st \<le> 0"
  shows "minObstacleDistance_loop ops st profile timeOffset slowDownTime startPos totalTime
           minDistance samples \<le> 0"
  using sample
proof (induction samples arbitrary: minDistance)
  case Nil
  then show ?case by simp
next
  case (Cons j rest)
  let ?pos = "\<lambda>k. vadd (samplePosition ops profile slowDownTime (totalTime * real k / 39)) startPos"
  let ?ds = "\<lambda>k. map (\<lambda>obstacle. obstacle_distance obstacle (?pos k) - m_radius st) (m_obstacles st)
      @ map (\<lambda>o1. mc_distance o1 (?pos k) (totalTime * real k / 39 + timeOffset)) (m_movingCircles st)
      @ map (\<lambda>o2. ml_distance o2 (?pos k) (totalTime * real k / 39 + timeOffset)) (m_movingLines st)"
  show ?case
  proof (cases "pointInPlayfield st (?pos j) (m_radius st)")
    case False
    then show ?thesis by (simp add: Let_def)
  next
    case True
    show ?thesis
    proof (cases "find (\<lambda>d. d \<le> 0) (?ds j)")
      case (Some d)
      then have "d \<le> 0" by (auto simp add: find_Some_iff)
      with True Some show ?thesis by (simp add: Let_def)
    next
      case None
      have "j \<noteq> i"
      proof
        assume "j = i"
        have "obstacle_distance obstacle (?pos i) - m_radius st \<in> set (?ds i)"
          using obstacle by simp
        with inside \<open>j = i\<close> have "\<exists>d \<in> set (?ds j). d \<le> 0" by blast
        with None show False unfolding find_None_iff by blast
      qed
      with Cons.prems have "i \<in> set rest" by simp
      from Cons.IH[OF this] True None show ?thesis by (simp add: Let_def)
    qed
  qed
qed

lemma exampleOps_fields:
  "isValid exampleOps = ep_valid"
  "inputTime exampleOps = ep_inputTime"
  "inputAngle exampleOps = ep_inputAngle"
  "findTrajectoryFastEndSpeed exampleOps v0 v1 position acc vMax slowDown highPrecision
     = exampleSearch position"
  "positionForTimeSlowDown exampleOps p t slowDown = examplePosition p (ep_duration p + slowDown) t"
  "positionForTime exampleOps p t = examplePosition p (ep_duration p) t"
  "timeWithSlowDown exampleOps p slowDown = ep_duration p + slowDown"
  "profileTime exampleOps = ep_duration"
  by (simp_all add: exampleOps_def)

text \<open>
  The example: the planner has the round obstacle at the origin, and its previous
  request ended with the mid speed (2, 0). A request from (-1, 0) to (2, 0) with maximum
  speed 1 m/s starts and ends outside the obstacle; its direct trajectory is valid and
  is rejected because it crosses the obstacle (the sample 13 lies at its centre). The
  call does not return.
\<close>

theorem calculateTrajectory_stuck_witness:
  "calculateTrajectory exampleOps (Vector (- 1) 0) (Vector 0 0) (Vector 2 0) (Vector 0 0) 1 3
     plannerAfterFastRequest = None"
proof (rule calculateTrajectory_stuck)
  let ?start = "(collectObstacles
         (planRequest (Vector (- 1) 0) (Vector 0 0) (Vector 2 0) (Vector 0 0) 1 3
           plannerAfterFastRequest))\<lparr>m_generationInfo := []\<rparr>"
  have "isValid exampleOps (directTrajectory exampleOps ?start)"
    by (simp add: directTrajectory_def exampleOps_fields exampleSearch_def)
  have "minObstacleDistance exampleOps ?start (directTrajectory exampleOps ?start) 0
          (directSlowDownTime ?start) (in_s0 ?start) \<le> 0"
    unfolding minObstacleDistance_def
  proof (rule minObstacleDistance_loop_hit[where i = 13 and obstacle = "Circle (Vector 0 0) (1 / 2) 50"])
    show "13 \<in> set [0 ..< 40]" by simp
    show "Circle (Vector 0 0) (1 / 2) 50 \<in> set (m_obstacles ?start)"
      by (simp add: planRequest_def collectObstacles_def plannerAfterFastRequest_def
            plannerWithObstacle_def examplePlanner_def)
    show "obstacle_distance (Circle (Vector 0 0) (1 / 2) 50)
        (vadd (samplePosition exampleOps (directTrajectory exampleOps ?start)
                 (directSlowDownTime ?start)
                 (sampledTotalTime exampleOps (directTrajectory exampleOps ?start)
                    (directSlowDownTime ?start) * real 13 / 39))
           (in_s0 ?start))
        - m_radius ?start \<le> 0"
      by (simp add: directTrajectory_def directSlowDownTime_def TOTAL_SLOW_DOWN_TIME_def
            samplePosition_def sampledTotalTime_def exampleOps_fields exampleSearch_def
            examplePosition_def planRequest_def collectObstacles_def plannerAfterFastRequest_def
            plannerWithObstacle_def examplePlanner_def vadd_def vsub_def vscale_def
            vdistance_def distanceSq_def lengthSquared_def)
  qed
  then show "\<not> directAccepted exampleOps ?start"
    by (simp add: directAccepted_def OBSTACLE_AVOIDANCE_RADIUS_def)
  show "\<not> isInStaticObstacle ?start (Vector (- 1) 0)"
    by (simp add: isInStaticObstacle_def pointInPlayfield_def planRequest_def
          collectObstacles_def plannerAfterFastRequest_def plannerWithObstacle_def
          examplePlanner_def vdistance_def distanceSq_def vsub_def lengthSquared_def)
  show "\<not> isInMovingObstacle ?start (Vector (- 1) 0) 0"
    by (simp add: isInMovingObstacle_def planRequest_def collectObstacles_def
          plannerAfterFastRequest_def plannerWithObstacle_def examplePlanner_def)
  show "\<not> isInStaticObstacle ?start (Vector 2 0)"
    by (simp add: isInStaticObstacle_def pointInPlayfield_def planRequest_def
          collectObstacles_def plannerAfterFastRequest_def plannerWithObstacle_def
          examplePlanner_def vdistance_def distanceSq_def vsub_def lengthSquared_def)
  show "1 * 1 < lengthSquared (bti_midSpeed (m_bestResultInfo plannerAfterFastRequest))"
    by (simp add: plannerAfterFastRequest_def lengthSquared_def)
qed

text \<open>
  The search keeps \<open>searchInvariant\<close>, and ends with at least one generation entry.
\<close>

lemma searchInvariant_frame [simp]:
  "searchInvariant e w (st\<lparr>m_rng := r\<rparr>) = searchInvariant e w st"
  "searchInvariant e w (st\<lparr>m_bestEndPointDistance := d\<rparr>) = searchInvariant e w st"
  "searchInvariant e w (st\<lparr>m_bestEscapingTime := t\<rparr>) = searchInvariant e w st"
  "searchInvariant e w (st\<lparr>m_bestEscapingAngle := a\<rparr>) = searchInvariant e w st"
  by (simp_all add: searchInvariant_def)

lemma checkMidPoint_cases:
  assumes same: "P st"
    and better: "\<And>b first second.
        bti_valid b \<Longrightarrow> \<not> gi_fastEndSpeed first \<Longrightarrow> gi_fastEndSpeed second \<Longrightarrow>
        exponentialSlowDown st \<or> gi_slowDownTime first = 0 \<Longrightarrow>
        gi_slowDownTime second = (if exponentialSlowDown st then TOTAL_SLOW_DOWN_TIME else 0) \<Longrightarrow>
        P (st\<lparr>m_bestResultInfo := b, m_generationInfo := [first, second]\<rparr>)"
  shows "P (snd (checkMidPoint ops midSpeed time angle st))"
proof (cases "exponentialSlowDown st")
  case True
  then show ?thesis
    unfolding checkMidPoint_def Let_def
    by (auto intro!: same better)
next
  case False
  then show ?thesis
    unfolding checkMidPoint_def Let_def
    by (auto intro!: same better)
qed

lemma checkMidPoint_invariant:
  assumes "searchInvariant e w st"
  shows "searchInvariant e w (snd (checkMidPoint ops midSpeed time angle st))"
proof (rule checkMidPoint_cases)
  show "searchInvariant e w st" by (rule assms)
next
  fix b :: BestTrajectoryInfo and first second :: TrajectoryGenerationInfo
  assume "bti_valid b" "\<not> gi_fastEndSpeed first" "gi_fastEndSpeed second"
    "exponentialSlowDown st \<or> gi_slowDownTime first = 0"
    "gi_slowDownTime second = (if exponentialSlowDown st then TOTAL_SLOW_DOWN_TIME else 0)"
  with assms show "searchInvariant e w (st\<lparr>m_bestResultInfo := b, m_generationInfo := [first, second]\<rparr>)"
    by (auto simp add: searchInvariant_def slowDownAsFlag_def tailSlowDown_def)
qed

lemma testEndPoint_invariant:
  "searchInvariant e w st \<Longrightarrow> searchInvariant e w (snd (testEndPoint ops endPoint st))"
  by (auto simp add: testEndPoint_def searchInvariant_def slowDownAsFlag_def tailSlowDown_def Let_def)

lemma escapeObstacles_loop_frame:
  "exponentialSlowDown (escapeObstacles_loop ops n best st) = exponentialSlowDown st
   \<and> in_v1 (escapeObstacles_loop ops n best st) = in_v1 st
   \<and> m_bestResultInfo (escapeObstacles_loop ops n best st) = m_bestResultInfo st"
  by (induction ops n best st rule: escapeObstacles_loop.induct)
     (simp_all add: Let_def split: prod.splits)

lemma escapeObstacles_entries:
  "map gi_slowDownTime (m_generationInfo (escapeObstacles ops st)) = [0]"
  "map gi_fastEndSpeed (m_generationInfo (escapeObstacles ops st)) = [False]"
  "exponentialSlowDown (escapeObstacles ops st) = exponentialSlowDown st"
  "in_v1 (escapeObstacles ops st) = in_v1 st"
  by (simp_all add: escapeObstacles_def Let_def escapeObstacles_loop_frame)

lemma escapeObstacles_invariant:
  "exponentialSlowDown st = e \<Longrightarrow> in_v1 st = w \<Longrightarrow> searchInvariant e w (escapeObstacles ops st)"
  by (simp add: escapeObstacles_def Let_def escapeObstacles_loop_frame searchInvariant_def
        slowDownAsFlag_def tailSlowDown_def)

lemma findPathEndInObstacle_loop_invariant:
  "searchInvariant e w st \<Longrightarrow> searchInvariant e w (findPathEndInObstacle_loop ops i n st)"
proof (induction n arbitrary: i st)
  case 0
  then show ?case by simp
next
  case (Suc n)
  show ?case
    using Suc.prems
    by (auto simp add: Let_def randomPointInField_def split: prod.splits
          intro!: Suc.IH testEndPoint_invariant)
qed

lemma searchInvariant_restart:
  "searchInvariant e w st \<Longrightarrow>
   searchInvariant e w (st\<lparr>m_bestEndPointDistance := d,
      m_bestResultInfo := (m_bestResultInfo st)\<lparr>bti_valid := False\<rparr>\<rparr>)"
  by (auto simp add: searchInvariant_def)

lemma escapeObstacles_keeps_invariant:
  "searchInvariant e w st \<Longrightarrow> searchInvariant e w (escapeObstacles ops st)"
  by (rule escapeObstacles_invariant) (simp_all add: searchInvariant_def)

lemma findPathEndInObstacle_invariant:
  assumes "searchInvariant e w st"
  shows "searchInvariant e w (findPathEndInObstacle ops st)"
  unfolding findPathEndInObstacle_def Let_def
  by (simp add: split_beta assms findPathEndInObstacle_loop_invariant testEndPoint_invariant
        searchInvariant_restart escapeObstacles_keeps_invariant)

lemma escapeObstacles_nonempty: "m_generationInfo (escapeObstacles ops st) \<noteq> []"
  by (simp add: escapeObstacles_def Let_def)

lemma searchInvariant_valid_nonempty:
  "searchInvariant e w st \<Longrightarrow> bti_valid (m_bestResultInfo st) \<Longrightarrow> m_generationInfo st \<noteq> []"
  by (auto simp add: searchInvariant_def)

lemma findPathEndInObstacle_entries:
  assumes "searchInvariant e w st"
  shows "m_generationInfo (findPathEndInObstacle ops st) \<noteq> []"
proof -
  note escape = escapeObstacles_nonempty
  note valid = searchInvariant_valid_nonempty[of e w]
  show ?thesis
    unfolding findPathEndInObstacle_def Let_def
    by (simp add: split_beta escape)
       (intro conjI impI valid; simp add: assms findPathEndInObstacle_loop_invariant
          testEndPoint_invariant searchInvariant_restart)
qed

lemma chooseSamplingMode_invariant:
  "searchInvariant e w (snd (chooseSamplingMode ops lastTrajectoryInfo i st))
     = searchInvariant e w st"
  by (simp add: chooseSamplingMode_def Let_def split_beta)

lemma sampleMidPoint_invariant:
  "sampleMidPoint ops lastTrajectoryInfo mode st = Some (speed, angle, time, st') \<Longrightarrow>
   searchInvariant e w st' = searchInvariant e w st"
  by (auto simp add: sampleMidPoint_def Let_def split_beta split: if_splits option.splits)

lemma normalSearch_loop_invariant:
  "normalSearch_loop ops lastTrajectoryInfo i n st = Some st' \<Longrightarrow> searchInvariant e w st \<Longrightarrow>
   searchInvariant e w st'"
proof (induction n arbitrary: i st)
  case 0
  then show ?case by simp
next
  case (Suc n)
  obtain mode st1 where choose: "chooseSamplingMode ops lastTrajectoryInfo i st = (mode, st1)"
    by (cases "chooseSamplingMode ops lastTrajectoryInfo i st")
  have st1: "searchInvariant e w st1"
    using chooseSamplingMode_invariant[of e w ops lastTrajectoryInfo i st] choose Suc.prems(2)
    by simp
  from Suc.prems(1) choose obtain speed angle time st2
    where sample: "sampleMidPoint ops lastTrajectoryInfo mode st1 = Some (speed, angle, time, st2)"
      and rest: "normalSearch_loop ops lastTrajectoryInfo (Suc i) n
                   (snd (checkMidPoint ops speed time angle st2)) = Some st'"
    by (auto split: option.splits)
  have "searchInvariant e w st2"
    using sampleMidPoint_invariant[OF sample] st1 by simp
  then have "searchInvariant e w (snd (checkMidPoint ops speed time angle st2))"
    by (rule checkMidPoint_invariant)
  with rest show ?case by (rule Suc.IH)
qed

lemma findPathAlphaT_search_invariant:
  assumes search: "findPathAlphaT_search ops lastTrajectoryInfo st = Some st'"
    and inv: "searchInvariant e w st"
  shows "searchInvariant e w st' \<and> m_generationInfo st' \<noteq> []"
proof -
  consider (start) "isInStaticObstacle st (in_s0 st) \<or> isInMovingObstacle st (in_s0 st) 0"
    | (target) "\<not> (isInStaticObstacle st (in_s0 st) \<or> isInMovingObstacle st (in_s0 st) 0)"
        "isInStaticObstacle st (in_s1 st)"
    | (normal) "\<not> (isInStaticObstacle st (in_s0 st) \<or> isInMovingObstacle st (in_s0 st) 0)"
        "\<not> isInStaticObstacle st (in_s1 st)"
    by blast
  then show ?thesis
  proof cases
    case start
    with search have "st' = escapeObstacles ops st"
      by (simp add: findPathAlphaT_search_def)
    with inv show ?thesis
      by (simp add: escapeObstacles_keeps_invariant escapeObstacles_nonempty)
  next
    case target
    with search have "st' = findPathEndInObstacle ops st"
      by (simp add: findPathAlphaT_search_def)
    with inv show ?thesis
      by (simp add: findPathEndInObstacle_invariant findPathEndInObstacle_entries)
  next
    case normal
    with search obtain st1 where loop: "normalSearch_loop ops lastTrajectoryInfo 0 100 st = Some st1"
      and result: "st' = (if \<not> bti_valid (m_bestResultInfo st1) then escapeObstacles ops st1 else st1)"
      by (auto simp add: findPathAlphaT_search_def split: option.splits if_splits)
    from loop inv have inv1: "searchInvariant e w st1"
      by (rule normalSearch_loop_invariant)
    show ?thesis
    proof (cases "bti_valid (m_bestResultInfo st1)")
      case True
      with result inv1 searchInvariant_valid_nonempty[OF inv1] show ?thesis by simp
    next
      case False
      with result inv1 show ?thesis
        by (simp add: escapeObstacles_keeps_invariant escapeObstacles_nonempty)
    qed
  qed
qed

lemma findPathAlphaT_invariant:
  assumes "findPathAlphaT ops st = Some st'"
  shows "searchInvariant (exponentialSlowDown st) (in_v1 st) st' \<and> m_generationInfo st' \<noteq> []"
proof (cases "directAccepted ops ((collectObstacles st)\<lparr>m_generationInfo := []\<rparr>)")
  case True
  with assms have "st' = (collectObstacles st)\<lparr>m_generationInfo :=
      [directInfo ops ((collectObstacles st)\<lparr>m_generationInfo := []\<rparr>)]\<rparr>"
    by (simp add: findPathAlphaT_def Let_def)
  then show ?thesis
    by (simp add: searchInvariant_def slowDownAsFlag_def tailSlowDown_def directInfo_def
          directSlowDownTime_def collectObstacles_def)
next
  case False
  let ?st1 = "(collectObstacles st)\<lparr>m_generationInfo := []\<rparr>"
  let ?st2 = "?st1\<lparr>m_bestResultInfo := (m_bestResultInfo ?st1)\<lparr>bti_time := Infty, bti_valid := False\<rparr>\<rparr>"
  from False assms have search: "findPathAlphaT_search ops (m_bestResultInfo ?st1) ?st2 = Some st'"
    by (simp add: findPathAlphaT_def Let_def)
  have "searchInvariant (exponentialSlowDown st) (in_v1 st) ?st2"
    by (simp add: searchInvariant_def collectObstacles_def)
  with search show ?thesis by (rule findPathAlphaT_search_invariant)
qed

lemma infoPoints_length: "length (infoPoints ops st startPos timeSum info) = 40"
  by (simp add: infoPoints_def Let_def split_beta)

lemma getResultPath_loop_length:
  "length (getResultPath_loop ops st startPos timeSum infos) = 40 * length infos"
  by (induction infos arbitrary: startPos timeSum) (simp_all add: Let_def infoPoints_length)

text \<open>
  A call that returns gives forty points for each generation entry, and at least forty.
\<close>

lemma calculateTrajectory_points:
  assumes "calculateTrajectory ops s0 v0 s1 v1 maxSpeed acceleration st = Some (path, st')"
  shows "length path = 40 * length (m_generationInfo st') \<and> path \<noteq> []"
proof -
  from assms have found: "findPathAlphaT ops (planRequest s0 v0 s1 v1 maxSpeed acceleration st) = Some st'"
    and path: "path = getResultPath ops st'"
    by (auto simp add: calculateTrajectory_def split: option.splits)
  from findPathAlphaT_invariant[OF found] have entries: "m_generationInfo st' \<noteq> []" by simp
  from path have len: "length path = 40 * length (m_generationInfo st')"
    by (simp add: getResultPath_def getResultPath_loop_length)
  with entries have "length path \<noteq> 0" by simp
  with len show ?thesis by auto
qed

lemma planRequest_flag:
  "planRequest s0 v0 s1 v1 maxSpeed acceleration (st\<lparr>exponentialSlowDown := flag\<rparr>)
     = planRequest s0 v0 s1 v1 maxSpeed acceleration st"
  "exponentialSlowDown (planRequest s0 v0 s1 v1 maxSpeed acceleration st) = (v1 = Vector 0 0)"
  "in_v1 (planRequest s0 v0 s1 v1 maxSpeed acceleration st) = v1"
  by (simp_all add: planRequest_def)

text \<open>
  Claim C9, as amended. When \<^verbatim>\<open>calculateTrajectory\<close> returns, the slowdown flag of the
  planner is set exactly when the requested end speed is (0, 0), and the result does not
  depend on the flag the planner had before the call. For a non-zero end speed every
  generation entry has slowdown time 0. For a stop request every entry built with fast
  end speed has the slowdown time 0.3 s. There is at least one entry, and the last
  entry, which decides the tail of the path, has the slowdown time 0.3 s if the request
  is a stop request and the entry was built with fast end speed, and 0 otherwise.
\<close>

theorem calculateTrajectory_slowdown:
  assumes "calculateTrajectory ops s0 v0 s1 v1 maxSpeed acceleration st = Some (path, st')"
  shows "exponentialSlowDown st' = (v1 = Vector 0 0)
    \<and> calculateTrajectory ops s0 v0 s1 v1 maxSpeed acceleration (st\<lparr>exponentialSlowDown := flag\<rparr>)
        = Some (path, st')
    \<and> (v1 \<noteq> Vector 0 0 \<longrightarrow> list_all (\<lambda>info. gi_slowDownTime info = 0) (m_generationInfo st'))
    \<and> (v1 = Vector 0 0 \<longrightarrow>
         list_all (\<lambda>info. gi_fastEndSpeed info \<longrightarrow> gi_slowDownTime info = TOTAL_SLOW_DOWN_TIME)
           (m_generationInfo st'))
    \<and> m_generationInfo st' \<noteq> []
    \<and> gi_slowDownTime (last (m_generationInfo st'))
        = (if v1 = Vector 0 0 \<and> gi_fastEndSpeed (last (m_generationInfo st'))
           then TOTAL_SLOW_DOWN_TIME else 0)"
proof -
  from assms have found: "findPathAlphaT ops (planRequest s0 v0 s1 v1 maxSpeed acceleration st) = Some st'"
    by (auto simp add: calculateTrajectory_def split: option.splits)
  from findPathAlphaT_invariant[OF found]
  have inv: "searchInvariant (v1 = Vector 0 0) v1 st'" and entries: "m_generationInfo st' \<noteq> []"
    by (simp_all add: planRequest_flag)
  have each: "list_all (slowDownAsFlag (v1 = Vector 0 0)) (m_generationInfo st')"
    and tail: "tailSlowDown (v1 = Vector 0 0) (m_generationInfo st')"
    and flag: "exponentialSlowDown st' = (v1 = Vector 0 0)"
    using inv entries by (simp_all add: searchInvariant_def)
  have same: "calculateTrajectory ops s0 v0 s1 v1 maxSpeed acceleration (st\<lparr>exponentialSlowDown := flag\<rparr>)
        = Some (path, st')"
    using assms by (simp add: calculateTrajectory_def planRequest_flag)
  have moving: "list_all (\<lambda>info. gi_slowDownTime info = 0) (m_generationInfo st')"
    if "v1 \<noteq> Vector 0 0"
    using each that by (auto simp add: list_all_iff slowDownAsFlag_def split: if_splits)
  have stopping: "list_all (\<lambda>info. gi_fastEndSpeed info \<longrightarrow> gi_slowDownTime info = TOTAL_SLOW_DOWN_TIME)
           (m_generationInfo st')" if "v1 = Vector 0 0"
    using each that by (auto simp add: list_all_iff slowDownAsFlag_def split: if_splits)
  from flag same moving stopping entries tail show ?thesis
    by (simp add: tailSlowDown_def)
qed


text \<open>
  The examples. Without obstacles, and with all samples inside the field,
  \<^verbatim>\<open>minObstacleDistance\<close> returns the value it starts from.
\<close>

lemma minObstacleDistance_loop_free:
  assumes "m_obstacles st = []" "m_movingCircles st = []" "m_movingLines st = []"
    and "\<And>i. pointInPlayfield st
           (vadd (samplePosition ops profile slowDownTime (totalTime * real i / 39)) startPos)
           (m_radius st)"
  shows "minObstacleDistance_loop ops st profile timeOffset slowDownTime startPos totalTime
           minDistance samples = minDistance"
  using assms by (induction samples) (simp_all add: Let_def)

lemma example_direct_in_field:
  "pointInPlayfield examplePlanner
     (vadd (examplePosition (exampleSearch (Vector (1 / 2) 0)) (13 / 10) (13 / 10 * real i / 39))
        (Vector 0 0)) (9 / 100)"
proof -
  have "0 \<le> real i / 39" by simp
  then show ?thesis
    by (simp add: pointInPlayfield_def examplePlanner_def examplePosition_def exampleSearch_def
          vadd_def vscale_def)
qed

lemma example_direct_accepted:
  "directAccepted exampleOps ((collectObstacles
     (planRequest (Vector 0 0) (Vector 0 0) (Vector (1 / 2) 0) (Vector 0 0) 3 3 examplePlanner))
     \<lparr>m_generationInfo := []\<rparr>)"
proof -
  define stopStart where "stopStart = (collectObstacles
     (planRequest (Vector 0 0) (Vector 0 0) (Vector (1 / 2) 0) (Vector 0 0) 3 3 examplePlanner))
     \<lparr>m_generationInfo := []\<rparr>"
  have slow: "directSlowDownTime stopStart = 3 / 10"
    by (simp add: directSlowDownTime_def stopStart_def planRequest_def collectObstacles_def
          TOTAL_SLOW_DOWN_TIME_def)
  have direct: "directTrajectory exampleOps stopStart = exampleSearch (Vector (1 / 2) 0)"
    by (simp add: directTrajectory_def exampleOps_fields stopStart_def planRequest_def
          collectObstacles_def vsub_def)
  have field: "pointInPlayfield stopStart p r = pointInPlayfield examplePlanner p r" for p r
    by (simp add: pointInPlayfield_def stopStart_def planRequest_def collectObstacles_def)
  have radius: "m_radius stopStart = 9 / 100"
    by (simp add: stopStart_def planRequest_def collectObstacles_def examplePlanner_def)
  have "minObstacleDistance exampleOps stopStart (exampleSearch (Vector (1 / 2) 0)) 0 (3 / 10)
          (Vector 0 0) = FLT_MAX"
    unfolding minObstacleDistance_def
  proof (rule minObstacleDistance_loop_free)
    fix i
    show "pointInPlayfield stopStart
        (vadd (samplePosition exampleOps (exampleSearch (Vector (1 / 2) 0)) (3 / 10)
           (sampledTotalTime exampleOps (exampleSearch (Vector (1 / 2) 0)) (3 / 10) * real i / 39))
          (Vector 0 0)) (m_radius stopStart)"
      using example_direct_in_field[of i]
      by (simp add: field radius samplePosition_def sampledTotalTime_def exampleOps_fields
            exampleSearch_def)
  qed (simp_all add: stopStart_def planRequest_def collectObstacles_def examplePlanner_def)
  then have "directAccepted exampleOps stopStart"
    by (simp add: directAccepted_def slow direct exampleOps_fields exampleSearch_def
          lengthSquared_def FLT_MAX_def OBSTACLE_AVOIDANCE_RADIUS_def)
       (simp add: stopStart_def planRequest_def collectObstacles_def)
  then show ?thesis by (simp only: stopStart_def)
qed

text \<open>
  A stop request from (0, 0) to (0.5, 0) on the free field: the direct trajectory is
  accepted, and its single entry carries the slowdown time 0.3 s.
\<close>

theorem calculateTrajectory_slowdown_witness:
  "\<exists>path st'.
     calculateTrajectory exampleOps (Vector 0 0) (Vector 0 0) (Vector (1 / 2) 0) (Vector 0 0) 3 3
       examplePlanner = Some (path, st')
     \<and> exponentialSlowDown st'
     \<and> calculateTrajectory exampleOps (Vector 0 0) (Vector 0 0) (Vector (1 / 2) 0) (Vector 0 0) 3 3
         (examplePlanner\<lparr>exponentialSlowDown := True\<rparr>) = Some (path, st')
     \<and> m_generationInfo st' \<noteq> []
     \<and> gi_fastEndSpeed (last (m_generationInfo st'))
     \<and> gi_slowDownTime (last (m_generationInfo st')) = 3 / 10"
proof -
  let ?start = "(collectObstacles
     (planRequest (Vector 0 0) (Vector 0 0) (Vector (1 / 2) 0) (Vector 0 0) 3 3 examplePlanner))
     \<lparr>m_generationInfo := []\<rparr>"
  let ?st = "?start\<lparr>m_generationInfo := [directInfo exampleOps ?start]\<rparr>"
  have returns: "calculateTrajectory exampleOps (Vector 0 0) (Vector 0 0) (Vector (1 / 2) 0)
      (Vector 0 0) 3 3 examplePlanner = Some (getResultPath exampleOps ?st, ?st)"
    using example_direct_accepted
    by (simp add: calculateTrajectory_def findPathAlphaT_def Let_def)
  have fast: "gi_fastEndSpeed (last (m_generationInfo ?st))"
    by (simp add: directInfo_def)
  from calculateTrajectory_slowdown[OF returns, of True] fast returns
  show ?thesis
    by (simp add: TOTAL_SLOW_DOWN_TIME_def)
qed

text \<open>
  Claim C9 as it was stated fails for this stop request: it goes from (0, 0), the centre
  of the round obstacle, to (2, 0) with end speed (0, 0). The slowdown flag is set, the
  direct trajectory is rejected because its first sample lies inside the obstacle, and
  the planner escapes the obstacle with a single entry whose slowdown time is 0, so the
  path is emitted without the slowdown.
\<close>

theorem stop_request_without_slowdown_counterexample:
  "map_option (\<lambda>(path, st'). (in_v1 st', exponentialSlowDown st',
        map gi_fastEndSpeed (m_generationInfo st'), map gi_slowDownTime (m_generationInfo st')))
     (calculateTrajectory exampleOps (Vector 0 0) (Vector 0 0) (Vector 2 0) (Vector 0 0) 3 3
        plannerWithObstacle)
   = Some (Vector 0 0, True, [False], [0])"
proof -
  define start where "start = (collectObstacles
     (planRequest (Vector 0 0) (Vector 0 0) (Vector 2 0) (Vector 0 0) 3 3 plannerWithObstacle))
     \<lparr>m_generationInfo := []\<rparr>"
  define st2 where "st2 = start\<lparr>m_bestResultInfo :=
      (m_bestResultInfo start)\<lparr>bti_time := Infty, bti_valid := False\<rparr>\<rparr>"
  have "minObstacleDistance exampleOps start (directTrajectory exampleOps start) 0
          (directSlowDownTime start) (in_s0 start) \<le> 0"
    unfolding minObstacleDistance_def
  proof (rule minObstacleDistance_loop_hit[where i = 0 and obstacle = "Circle (Vector 0 0) (1 / 2) 50"])
    show "0 \<in> set [0 ..< 40]" by simp
    show "Circle (Vector 0 0) (1 / 2) 50 \<in> set (m_obstacles start)"
      by (simp add: start_def planRequest_def collectObstacles_def plannerWithObstacle_def
            examplePlanner_def)
    show "obstacle_distance (Circle (Vector 0 0) (1 / 2) 50)
        (vadd (samplePosition exampleOps (directTrajectory exampleOps start)
                 (directSlowDownTime start)
                 (sampledTotalTime exampleOps (directTrajectory exampleOps start)
                    (directSlowDownTime start) * real 0 / 39))
           (in_s0 start))
        - m_radius start \<le> 0"
      by (simp add: directTrajectory_def directSlowDownTime_def TOTAL_SLOW_DOWN_TIME_def
            samplePosition_def sampledTotalTime_def exampleOps_fields exampleSearch_def
            examplePosition_def start_def planRequest_def collectObstacles_def
            plannerWithObstacle_def examplePlanner_def vadd_def vsub_def vscale_def
            vdistance_def distanceSq_def lengthSquared_def)
  qed
  then have rejected: "\<not> directAccepted exampleOps start"
    by (simp add: directAccepted_def OBSTACLE_AVOIDANCE_RADIUS_def)
  have inside: "isInStaticObstacle st2 (in_s0 st2)"
    by (simp add: isInStaticObstacle_def pointInPlayfield_def st2_def start_def planRequest_def
          collectObstacles_def plannerWithObstacle_def examplePlanner_def vdistance_def
          distanceSq_def vsub_def lengthSquared_def)
  have flags: "in_v1 st2 = Vector 0 0" "exponentialSlowDown st2"
    by (simp_all add: st2_def start_def planRequest_def collectObstacles_def)
  have invalid: "\<not> bti_valid (m_bestResultInfo st2)"
    by (simp add: st2_def)
  have "findPathAlphaT exampleOps
      (planRequest (Vector 0 0) (Vector 0 0) (Vector 2 0) (Vector 0 0) 3 3 plannerWithObstacle)
      = Some (escapeObstacles exampleOps st2)"
    using rejected inside invalid
    by (simp add: findPathAlphaT_def Let_def findPathAlphaT_search_def start_def[symmetric]
          st2_def[symmetric])
  then show ?thesis
    by (simp add: calculateTrajectory_def escapeObstacles_entries flags)
qed

end
